theory Spec2Isabelle
  imports Main
begin

section \<open>Exceptions\<close>

text \<open>
  Every exception the modelled code can raise is a value.  A function that may raise
  returns \<open>exc + 'a\<close> (\<open>Inl\<close> is the raised exception) together with the state it
  leaves behind: what was written before the raise stays written.
\<close>

datatype exc =
    GraphQLError string
  | DoesNotExist string
  | MultipleObjectsReturned string
  | Http404 string
  | IntegrityError
  | ValueError string
  | AttributeError string string
  | NameError string
  | FieldError string
  | RelatedObjectDoesNotExist string

fun is_DoesNotExist :: "exc \<Rightarrow> bool" where
  "is_DoesNotExist (DoesNotExist m) = True"
| "is_DoesNotExist e = False"

text \<open>\<open>str(e)\<close>: the message of an exception.\<close>

definition quote :: string where
  "quote = [CHR 0x27]"

fun str_exc :: "exc \<Rightarrow> string" where
  "str_exc (GraphQLError m) = m"
| "str_exc (DoesNotExist m) = m @ '' matching query does not exist.''"
| "str_exc (MultipleObjectsReturned m) = ''get() returned more than one '' @ m"
| "str_exc (Http404 m) = ''No '' @ m @ '' matches the given query.''"
| "str_exc IntegrityError = ''UNIQUE constraint failed''"
| "str_exc (ValueError m) = m"
| "str_exc (AttributeError c a) =
     quote @ c @ quote @ '' object has no attribute '' @ quote @ a @ quote"
| "str_exc (NameError n) = ''name '' @ quote @ n @ quote @ '' is not defined''"
| "str_exc (FieldError k) = ''Cannot resolve keyword '' @ quote @ k @ quote @ '' into field.''"
| "str_exc (RelatedObjectDoesNotExist m) = m"

text \<open>The three failures of \<open>verify_header\<close>, under the names the specification gives them.\<close>

definition Unauthenticated :: exc where
  "Unauthenticated = GraphQLError ''User has not Login''"

definition InvalidToken :: exc where
  "InvalidToken = GraphQLError ''Authorization Token is Invalid''"

definition TokenExpired :: exc where
  "TokenExpired = GraphQLError ''Token has Expired''"

section \<open>account.models\<close>

text \<open>
  \<open>CustomUser\<close>: one row of the user table.  \<open>pk\<close> is the automatic integer key,
  \<open>password\<close> the content of the password column, \<open>token\<close> the nullable session token.
\<close>

record CustomUser =
  pk :: int
  email :: string
  username :: string
  first_name :: string
  last_name :: string
  password :: string
  is_active :: bool
  is_admin :: bool
  is_patron :: bool
  is_author :: bool
  token :: "string option"
  role :: string

text \<open>
  The request: the \<open>Authorization\<close> header as \<open>request.META\<close> holds it, and the user
  bound to the request's session (\<open>None\<close> when the session is anonymous).
\<close>

record request =
  HTTP_AUTHORIZATION :: "string option"
  session_user :: "int option"

text \<open>
  \<open>AuthorUser\<close>: the author profile of a user; \<open>user_id\<close> is the column of the
  one-to-one field \<open>user\<close>.  The UUID keys of the other tables are natural numbers
  here: the code only compares them.
\<close>

record AuthorUser =
  author_id :: nat
  user_id :: int
  birthdate :: string
  nationality :: string

section \<open>genre.models\<close>

record Genre =
  genreid :: nat
  name :: string
  description :: string

section \<open>books.models\<close>

text \<open>
  An attribute of a \<open>Book\<close> instance holds whatever Python value was assigned to it,
  \<open>None\<close> included.  The many-to-many fields \<open>author\<close> and \<open>genres\<close> are the sets
  of related keys.  The column \<open>description\<close> is \<open>book_description\<close> here, since
  \<open>Genre\<close> has a field of that name.
\<close>

datatype pyval = PyNone | PyStr string | PyInt int | PyDate int int int

record Book =
  bookid :: nat
  title :: pyval
  isbn :: pyval
  book_description :: pyval
  author :: "nat set"
  genres :: "nat set"
  rating :: pyval
  publishyear :: pyval
  avaliablecopies :: pyval
  noofreviews :: pyval
  bookpages :: pyval

section \<open>The stored state\<close>

record database =
  CustomUser_objects :: "CustomUser list"
  AuthorUser_objects :: "AuthorUser list"
  Genre_objects :: "Genre list"
  Book_objects :: "Book list"

text \<open>
  \<open>Model.objects.get(...)\<close>: the one row that matches; \<open>DoesNotExist\<close> when none
  does, \<open>MultipleObjectsReturned\<close> when several do.
\<close>

definition objects_get :: "string \<Rightarrow> ('a \<Rightarrow> bool) \<Rightarrow> 'a list \<Rightarrow> exc + 'a" where
  "objects_get model P rows =
     (case filter P rows of
        [] \<Rightarrow> Inl (DoesNotExist model)
      | [x] \<Rightarrow> Inr x
      | x # y # zs \<Rightarrow> Inl (MultipleObjectsReturned model))"

text \<open>
  \<open>user.save()\<close>: writes every column of the row with the user's key (or inserts the
  row when the key is new).  \<open>email\<close>, \<open>username\<close> and a non-null \<open>token\<close> are
  unique columns: a clash with another row raises \<open>IntegrityError\<close>.
\<close>

definition unique_clash :: "CustomUser \<Rightarrow> CustomUser \<Rightarrow> bool" where
  "unique_clash u r =
     (pk r \<noteq> pk u \<and>
      (email r = email u \<or> username r = username u \<or> (token u \<noteq> None \<and> token r = token u)))"

definition CustomUser_save :: "CustomUser \<Rightarrow> CustomUser list \<Rightarrow> exc + CustomUser list" where
  "CustomUser_save u rows =
     (if list_ex (unique_clash u) rows then Inl IntegrityError
      else if list_ex (\<lambda>r. pk r = pk u) rows
        then Inr (map (\<lambda>r. if pk r = pk u then u else r) rows)
        else Inr (rows @ [u]))"

text \<open>\<open>django.contrib.auth.logout(request)\<close>: the session is flushed.\<close>

definition logout :: "request \<Rightarrow> request" where
  "logout request = request\<lparr>session_user := None\<rparr>"

text \<open>\<open>django.contrib.auth.login(request, user)\<close>: the session is bound to the user.\<close>

definition login :: "request \<Rightarrow> CustomUser \<Rightarrow> request" where
  "login request user = request\<lparr>session_user := Some (pk user)\<rparr>"

section \<open>account.tokens\<close>

text \<open>
  \<open>verify_header(request)\<close>.  The token generator's \<open>check_token\<close> is a parameter
  (it reads the clock).  The walrus test \<open>if token := request.META.get(...)\<close> is false
  for a missing header and for an empty one.  Only \<open>CustomUser.DoesNotExist\<close> is
  caught around the lookup; the result carries the request and the database as the
  call leaves them.
\<close>

definition verify_header ::
  "(CustomUser \<Rightarrow> string \<Rightarrow> bool) \<Rightarrow> request \<Rightarrow> database
     \<Rightarrow> (exc + CustomUser) \<times> request \<times> database" where
  "verify_header check_token request db =
     (case HTTP_AUTHORIZATION request of
        None \<Rightarrow> (Inl (GraphQLError ''User has not Login''), request, db)
      | Some tok \<Rightarrow>
          if tok = [] then (Inl (GraphQLError ''User has not Login''), request, db)
          else
            (case objects_get ''CustomUser'' (\<lambda>u. token u = Some tok) (CustomUser_objects db) of
               Inl e \<Rightarrow>
                 if is_DoesNotExist e
                 then (Inl (GraphQLError ''Authorization Token is Invalid''), request, db)
                 else (Inl e, request, db)
             | Inr user \<Rightarrow>
                 if check_token user tok then (Inr user, request, db)
                 else
                   (let request' = logout request;
                        user' = user\<lparr>token := None\<rparr>
                    in case CustomUser_save user' (CustomUser_objects db) of
                         Inl e \<Rightarrow> (Inl e, request', db)
                       | Inr rows \<Rightarrow>
                           (Inl (GraphQLError ''Token has Expired''), request',
                            db\<lparr>CustomUser_objects := rows\<rparr>))))"

section \<open>The framework's token generator\<close>

text \<open>
  Modelled from the spec: \<open>make_token\<close> and \<open>check_token\<close>, which
  \<open>ExpiringTokenGenerator\<close> inherits from the framework's
  \<open>PasswordResetTokenGenerator\<close> and which are not part of the sources; the class
  overrides only \<open>_make_hash_value\<close>.  The token is the base-36 timestamp, a dash and
  the hash; checking splits the token, reads the timestamp back, rebuilds the token and
  compares.  Where the specification leaves a detail open (the thirteen-digit limit,
  the fallback secrets, the timeout test) the inherited methods are followed.  What
  they take from the installation is a parameter: the keyed hash \<open>salted_hmac\<close> (secret and value to digest bytes, the fixed
  key salt included), the rendering \<open>text_type_datetime\<close> of a \<open>datetime\<close>, the secret,
  its fallbacks and the reset timeout in seconds.
\<close>

record framework =
  salted_hmac :: "string \<Rightarrow> string \<Rightarrow> nat list"
  text_type_datetime :: "int \<Rightarrow> string"
  SECRET_KEY :: string
  SECRET_KEY_FALLBACKS :: "string list"
  PASSWORD_RESET_TIMEOUT :: int

text \<open>
  A clock reading \<open>now\<close> is the local time in microseconds since 2001-01-01 00:00:00,
  the origin of \<open>_num_seconds\<close>; \<open>int(...)\<close> truncates towards zero.
\<close>

definition num_seconds :: "int \<Rightarrow> int" where
  "num_seconds dt = (if 0 \<le> dt then dt div 1000000 else - ((- dt) div 1000000))"

text \<open>
  Modelled from the spec: the framework's \<open>int_to_base36\<close>, the base-36 timestamp
  component of the token.
\<close>

definition char_set :: string where
  "char_set = ''0123456789abcdefghijklmnopqrstuvwxyz''"

function b36_loop :: "nat \<Rightarrow> string \<Rightarrow> string" where
  "b36_loop i b36 = (if i = 0 then b36 else b36_loop (i div 36) (char_set ! (i mod 36) # b36))"
  by pat_completeness auto
termination
  by (relation "measure (\<lambda>(i, b36). i)") auto

declare b36_loop.simps [simp del]

definition int_to_base36 :: "int \<Rightarrow> exc + string" where
  "int_to_base36 i =
     (if i < 0 then Inl (ValueError ''Negative base36 conversion input.'')
      else if i < 36 then Inr [char_set ! nat i]
      else Inr (b36_loop (nat i) []))"

fun index_of :: "'a \<Rightarrow> 'a list \<Rightarrow> nat" where
  "index_of x [] = 0"
| "index_of x (y # ys) = (if x = y then 0 else Suc (index_of x ys))"

text \<open>
  Modelled from the spec: the framework's \<open>base36_to_int\<close>, which reads the
  timestamp component back (an unparseable one is a \<open>ValueError\<close>): at most 13 characters, then \<open>int(s, 36)\<close>.  Of \<open>int\<close> only the
  digit strings over \<open>char_set\<close> are read here.  Python's \<open>int\<close> also reads capitals, a
  sign, surrounding blanks and underscores; \<open>check_token\<close> rejects every such token as
  well, since the token it rebuilds from the number starts with the canonical digits.
\<close>

definition base36_to_int :: "string \<Rightarrow> exc + int" where
  "base36_to_int s =
     (if length s > 13 then Inl (ValueError ''Base36 input too large'')
      else if s = [] \<or> list_ex (\<lambda>c. c \<notin> set char_set) s
        then Inl (ValueError ''invalid literal for int() with base 36'')
      else Inr (int (foldl (\<lambda>a c. a * 36 + index_of c char_set) 0 s)))"

text \<open>\<open>six.text_type\<close> of an integer: its decimal digits.\<close>

function str_nat :: "nat \<Rightarrow> string" where
  "str_nat n =
     (if n < 10 then [''0123456789'' ! n] else str_nat (n div 10) @ [''0123456789'' ! (n mod 10)])"
  by pat_completeness auto
termination
  by (relation "measure (\<lambda>n. n)") auto

declare str_nat.simps [simp del]

definition text_type_int :: "int \<Rightarrow> string" where
  "text_type_int i = (if i < 0 then CHR ''-'' # str_nat (nat (- i)) else str_nat (nat i))"

definition text_type_bool :: "bool \<Rightarrow> string" where
  "text_type_bool b = (if b then ''True'' else ''False'')"

text \<open>
  \<open>ExpiringTokenGenerator._make_hash_value(user, timestamp)\<close>: the argument
  \<open>timestamp\<close> is overwritten by the clock plus ten seconds before it is read.
\<close>

definition make_hash_value :: "framework \<Rightarrow> int \<Rightarrow> CustomUser \<Rightarrow> int \<Rightarrow> string" where
  "make_hash_value fw now user timestamp =
     (let timestamp = now + 10 * 1000000
      in text_type_int (pk user) @ text_type_datetime fw timestamp @ text_type_bool (is_active user))"

text \<open>
  Modelled from the spec: the token layout of the framework's
  \<open>_make_token_with_timestamp\<close> and \<open>make_token\<close>.
  \<open>hexdigest()\<close> writes each byte as two hexadecimal digits; \<open>[::2]\<close> keeps every second
  character.
\<close>

definition hexdigits :: string where
  "hexdigits = ''0123456789abcdef''"

definition hexdigest :: "nat list \<Rightarrow> string" where
  "hexdigest bs = concat (map (\<lambda>b. [hexdigits ! (b div 16 mod 16), hexdigits ! (b mod 16)]) bs)"

fun every_second :: "'a list \<Rightarrow> 'a list" where
  "every_second [] = []"
| "every_second [x] = [x]"
| "every_second (x # y # zs) = x # every_second zs"

definition make_token_with_timestamp ::
  "framework \<Rightarrow> int \<Rightarrow> CustomUser \<Rightarrow> int \<Rightarrow> string \<Rightarrow> exc + string" where
  "make_token_with_timestamp fw now user timestamp secret =
     (case int_to_base36 timestamp of
        Inl e \<Rightarrow> Inl e
      | Inr ts_b36 \<Rightarrow>
          Inr (ts_b36 @ ''-'' @
               every_second (hexdigest (salted_hmac fw secret (make_hash_value fw now user timestamp)))))"

definition token_generator_make_token :: "framework \<Rightarrow> int \<Rightarrow> CustomUser \<Rightarrow> exc + string" where
  "token_generator_make_token fw now user =
     make_token_with_timestamp fw now user (num_seconds now) (SECRET_KEY fw)"

text \<open>\<open>token.split("-")\<close>: the parts between the separators, at least one.\<close>

fun str_split :: "char \<Rightarrow> string \<Rightarrow> string list" where
  "str_split c [] = [[]]"
| "str_split c (x # xs) =
     (if x = c then [] # str_split c xs else (x # hd (str_split c xs)) # tl (str_split c xs))"

text \<open>
  Modelled from the spec: \<open>token_generator.check_token(user, token)\<close>, inherited from
  the framework.  A model instance is always truthy, so the first test is
  on the token alone.  The unpacking \<open>ts_b36, _ = token.split("-")\<close> needs exactly two
  parts.  The number read back is never negative, so rebuilding the token cannot raise.
\<close>

definition token_generator_check_token :: "framework \<Rightarrow> int \<Rightarrow> CustomUser \<Rightarrow> string \<Rightarrow> bool" where
  "token_generator_check_token fw now user tok =
     (if tok = [] then False
      else
        (case str_split CHR ''-'' tok of
           [ts_b36, h] \<Rightarrow>
             (case base36_to_int ts_b36 of
                Inl e \<Rightarrow> False
              | Inr ts \<Rightarrow>
                  if list_ex (\<lambda>secret. make_token_with_timestamp fw now user ts secret = Inr tok)
                       (SECRET_KEY fw # SECRET_KEY_FALLBACKS fw)
                  then (if num_seconds now - ts > PASSWORD_RESET_TIMEOUT fw then False else True)
                  else False)
         | _ \<Rightarrow> False))"

section \<open>account.models: the manager\<close>

text \<open>
  A new row takes the next key of the table.  \<open>CustomUser.objects.create(...)\<close> builds
  the instance from the keyword arguments, every other column at its default, and
  inserts it: the \<open>password\<close> column receives the argument as it is.
\<close>

definition next_pk :: "CustomUser list \<Rightarrow> int" where
  "next_pk rows = fold max (map pk rows) 0 + 1"

definition CustomUser_objects_create ::
  "database \<Rightarrow> string \<Rightarrow> string \<Rightarrow> string \<Rightarrow> string \<Rightarrow> string \<Rightarrow> exc + CustomUser \<times> database" where
  "CustomUser_objects_create db email_arg username_arg first_name_arg last_name_arg password_arg =
     (let obj = \<lparr>pk = next_pk (CustomUser_objects db), email = email_arg,
                 username = username_arg, first_name = first_name_arg,
                 last_name = last_name_arg, password = password_arg, is_active = True,
                 is_admin = False, is_patron = False, is_author = False, token = None,
                 role = ''L''\<rparr>
      in case CustomUser_save obj (CustomUser_objects db) of
           Inl e \<Rightarrow> Inl e
         | Inr rows \<Rightarrow> Inr (obj, db\<lparr>CustomUser_objects := rows\<rparr>))"

text \<open>
  \<open>CustomUserManager.create_user(email, password, **kwargs)\<close>.  The framework's
  \<open>make_password\<close> (the salted hash, or an unusable marker for \<open>None\<close>) and
  \<open>normalize_email\<close> are parameters; \<open>kwargs\<close> is an instance that carries the other
  columns.  \<open>set_password\<close> stores \<open>make_password(password)\<close>.
\<close>

definition set_password :: "(string option \<Rightarrow> string) \<Rightarrow> CustomUser \<Rightarrow> string option \<Rightarrow> CustomUser" where
  "set_password make_password user raw_password = user\<lparr>password := make_password raw_password\<rparr>"

definition create_user ::
  "(string option \<Rightarrow> string) \<Rightarrow> (string \<Rightarrow> string) \<Rightarrow> database \<Rightarrow> string \<Rightarrow> string option
     \<Rightarrow> CustomUser \<Rightarrow> exc + CustomUser \<times> database" where
  "create_user make_password normalize_email db email_arg password_arg kwargs =
     (if email_arg = [] then Inl (ValueError ''Email must be set'')
      else
        (let email_arg = normalize_email email_arg;
             user = kwargs\<lparr>pk := next_pk (CustomUser_objects db), email := email_arg\<rparr>;
             user = set_password make_password user password_arg
         in case CustomUser_save user (CustomUser_objects db) of
              Inl e \<Rightarrow> Inl e
            | Inr rows \<Rightarrow> Inr (user, db\<lparr>CustomUser_objects := rows\<rparr>)))"

section \<open>account.views\<close>

text \<open>
  \<open>except Exception as e: raise GraphQLError(str(e))\<close> around a body: the exception
  leaves as a \<open>GraphQLError\<close> with the same message, the state as the body left it.
\<close>

definition reraise :: "(exc + 'a) \<times> request \<times> database \<Rightarrow> (exc + 'a) \<times> request \<times> database" where
  "reraise res =
     (case res of
        (Inl e, request, db) \<Rightarrow> (Inl (GraphQLError (str_exc e)), request, db)
      | (Inr v, request, db) \<Rightarrow> (Inr v, request, db))"

text \<open>
  \<open>LoginMutation.mutate(info, email, password)\<close>.  \<open>user.check_password\<close> (the
  framework's test of a raw password against the stored column) and the generator's
  \<open>make_token\<close> are parameters.  \<open>not(user.token)\<close> holds for \<open>None\<close> and for the
  empty string.  Nothing is caught here.
\<close>

definition LoginMutation_mutate ::
  "(string \<Rightarrow> string \<Rightarrow> bool) \<Rightarrow> (CustomUser \<Rightarrow> exc + string) \<Rightarrow> request \<Rightarrow> database
     \<Rightarrow> string \<Rightarrow> string \<Rightarrow> (exc + unit) \<times> request \<times> database" where
  "LoginMutation_mutate check_password make_token request db email_arg password_arg =
     (case objects_get ''CustomUser'' (\<lambda>u. email u = email_arg) (CustomUser_objects db) of
        Inl e \<Rightarrow> (Inl e, request, db)
      | Inr user \<Rightarrow>
          if check_password password_arg (password user) then
            (case (if token user = None \<or> token user = Some []
                   then (case make_token user of
                           Inl e \<Rightarrow> Inl e
                         | Inr t \<Rightarrow> Inr (user\<lparr>token := Some t\<rparr>))
                   else Inr user) of
               Inl e \<Rightarrow> (Inl e, request, db)
             | Inr user \<Rightarrow>
                 (case CustomUser_save user (CustomUser_objects db) of
                    Inl e \<Rightarrow> (Inl e, request, db)
                  | Inr rows \<Rightarrow> (Inr (), login request user, db\<lparr>CustomUser_objects := rows\<rparr>)))
          else (Inl (GraphQLError ''Invalid credentials. Please try again.''), request, db))"

text \<open>\<open>SignUpMutation.mutate\<close>: the account is made by \<open>CustomUser.objects.create\<close>.\<close>

definition SignUpMutation_mutate ::
  "request \<Rightarrow> database \<Rightarrow> string \<Rightarrow> string \<Rightarrow> string \<Rightarrow> string \<Rightarrow> string \<Rightarrow> string
     \<Rightarrow> (exc + unit) \<times> request \<times> database" where
  "SignUpMutation_mutate request db email_arg username_arg first_name_arg last_name_arg
       password_arg confirm_password =
     (if password_arg = confirm_password then
        reraise
          (case CustomUser_objects_create db email_arg username_arg first_name_arg
                  last_name_arg password_arg of
             Inl e \<Rightarrow> (Inl e, request, db)
           | Inr (new_user, db') \<Rightarrow> (Inr (), request, db'))
      else (Inl (GraphQLError ''Password does not match''), request, db))"

text \<open>\<open>LogOutMutation.mutate\<close>.\<close>

definition LogOutMutation_mutate ::
  "(CustomUser \<Rightarrow> string \<Rightarrow> bool) \<Rightarrow> request \<Rightarrow> database \<Rightarrow> (exc + unit) \<times> request \<times> database" where
  "LogOutMutation_mutate check_token request db =
     reraise
       (case verify_header check_token request db of
          (Inl e, request, db) \<Rightarrow> (Inl e, request, db)
        | (Inr user, request, db) \<Rightarrow>
            (case CustomUser_save (user\<lparr>token := None\<rparr>) (CustomUser_objects db) of
               Inl e \<Rightarrow> (Inl e, request, db)
             | Inr rows \<Rightarrow> (Inr (), logout request, db\<lparr>CustomUser_objects := rows\<rparr>)))"

section \<open>genre.views\<close>

text \<open>\<open>uuid4\<close> as the default of a key column: a key the table does not hold yet.\<close>

definition uuid4 :: "nat list \<Rightarrow> nat" where
  "uuid4 keys = Suc (fold max keys 0)"

definition Genre_objects_create :: "database \<Rightarrow> string \<Rightarrow> string \<Rightarrow> Genre \<times> database" where
  "Genre_objects_create db name_arg description_arg =
     (let obj = \<lparr>genreid = uuid4 (map genreid (Genre_objects db)), name = name_arg,
                 description = description_arg\<rparr>
      in (obj, db\<lparr>Genre_objects := Genre_objects db @ [obj]\<rparr>))"

definition Genre_save :: "Genre \<Rightarrow> Genre list \<Rightarrow> Genre list" where
  "Genre_save g rows =
     (if list_ex (\<lambda>r. genreid r = genreid g) rows
      then map (\<lambda>r. if genreid r = genreid g then g else r) rows
      else rows @ [g])"

text \<open>\<open>genre.delete()\<close>: the row goes, and with it the genre's rows of the book relation.\<close>

definition Genre_delete :: "Genre \<Rightarrow> database \<Rightarrow> database" where
  "Genre_delete g db =
     db\<lparr>Genre_objects := filter (\<lambda>r. genreid r \<noteq> genreid g) (Genre_objects db),
        Book_objects := map (\<lambda>b. b\<lparr>genres := genres b - {genreid g}\<rparr>) (Book_objects db)\<rparr>"

text \<open>
  \<open>CreateGenreMutation.mutate(info, name, description)\<close>: the payload's \<open>genre\<close>
  field is left unset.
\<close>

definition CreateGenreMutation_mutate ::
  "(CustomUser \<Rightarrow> string \<Rightarrow> bool) \<Rightarrow> request \<Rightarrow> database \<Rightarrow> string \<Rightarrow> string
     \<Rightarrow> (exc + Genre option) \<times> request \<times> database" where
  "CreateGenreMutation_mutate check_token request db name_arg description_arg =
     reraise
       (case verify_header check_token request db of
          (Inl e, request, db) \<Rightarrow> (Inl e, request, db)
        | (Inr user, request, db) \<Rightarrow>
            (case Genre_objects_create db name_arg description_arg of
               (new_genre, db) \<Rightarrow> (Inr None, request, db)))"

text \<open>
  \<open>EditGenreMutation.mutate(info, name, description, genreid)\<close>: an argument that is
  \<open>None\<close> keeps the stored value.
\<close>

definition EditGenreMutation_mutate ::
  "(CustomUser \<Rightarrow> string \<Rightarrow> bool) \<Rightarrow> request \<Rightarrow> database \<Rightarrow> string option \<Rightarrow> string option
     \<Rightarrow> nat \<Rightarrow> (exc + Genre option) \<times> request \<times> database" where
  "EditGenreMutation_mutate check_token request db name_arg description_arg genreid_arg =
     reraise
       (case verify_header check_token request db of
          (Inl e, request, db) \<Rightarrow> (Inl e, request, db)
        | (Inr user, request, db) \<Rightarrow>
            (case objects_get ''Genre'' (\<lambda>g. genreid g = genreid_arg) (Genre_objects db) of
               Inl e \<Rightarrow> (Inl e, request, db)
             | Inr oldgenre \<Rightarrow>
                 (let oldgenre = oldgenre\<lparr>name :=
                        (case name_arg of Some n \<Rightarrow> n | None \<Rightarrow> name oldgenre)\<rparr>;
                      oldgenre = oldgenre\<lparr>description :=
                        (case description_arg of Some d \<Rightarrow> d | None \<Rightarrow> description oldgenre)\<rparr>
                  in (Inr (Some oldgenre), request,
                      db\<lparr>Genre_objects := Genre_save oldgenre (Genre_objects db)\<rparr>))))"

text \<open>\<open>DeleteGenreMutation.mutate(info, genreid)\<close>.\<close>

definition DeleteGenreMutation_mutate ::
  "(CustomUser \<Rightarrow> string \<Rightarrow> bool) \<Rightarrow> request \<Rightarrow> database \<Rightarrow> nat
     \<Rightarrow> (exc + unit) \<times> request \<times> database" where
  "DeleteGenreMutation_mutate check_token request db genreid_arg =
     reraise
       (case verify_header check_token request db of
          (Inl e, request, db) \<Rightarrow> (Inl e, request, db)
        | (Inr user, request, db) \<Rightarrow>
            (case objects_get ''Genre'' (\<lambda>g. genreid g = genreid_arg) (Genre_objects db) of
               Inl e \<Rightarrow> (Inl e, request, db)
             | Inr oldgenre \<Rightarrow> (Inr (), request, Genre_delete oldgenre db)))"

section \<open>books.models: \<open>Book.edit_book\<close>\<close>

text \<open>
  The keyword arguments are a dictionary from names to values.  \<open>kwargs.get(k)\<close> is
  \<open>None\<close> for a missing key; \<open>k in kwargs.keys()\<close> is the test for the key.  Each
  assignment of \<open>edit_book\<close> reads only the attribute it writes, so the eight of them
  are one record update.  The title is read under the key that ends in a backquote
  (character 96).
\<close>

definition kwargs_get :: "(string \<rightharpoonup> pyval) \<Rightarrow> string \<Rightarrow> pyval" where
  "kwargs_get kwargs k = (case kwargs k of None \<Rightarrow> PyNone | Some v \<Rightarrow> v)"

definition has_key :: "(string \<rightharpoonup> pyval) \<Rightarrow> string \<Rightarrow> bool" where
  "has_key kwargs k = (kwargs k \<noteq> None)"

definition title_backquote :: string where
  "title_backquote = ''title'' @ [CHR 0x60]"

definition edit_book :: "Book \<Rightarrow> (string \<rightharpoonup> pyval) \<Rightarrow> Book" where
  "edit_book self kwargs =
     self\<lparr>isbn := (if has_key kwargs ''isbn'' then kwargs_get kwargs ''isbn'' else isbn self),
          title := (if has_key kwargs ''title'' then kwargs_get kwargs title_backquote
                    else title self),
          rating := (if has_key kwargs ''rating'' then kwargs_get kwargs ''rating''
                     else rating self),
          bookpages := (if has_key kwargs ''bookpages'' then kwargs_get kwargs ''bookpages''
                        else bookpages self),
          book_description := (if has_key kwargs ''description''
                               then kwargs_get kwargs ''description''
                               else book_description self),
          publishyear := (if has_key kwargs ''publishyear''
                          then kwargs_get kwargs ''publishyear'' else publishyear self),
          noofreviews := (if has_key kwargs ''noofreviews''
                          then kwargs_get kwargs ''noofreviews'' else noofreviews self),
          avaliablecopies := (if has_key kwargs ''avaliablecopies''
                              then kwargs_get kwargs ''avaliablecopies''
                              else avaliablecopies self)\<rparr>"

section \<open>books.views\<close>

text \<open>
  \<open>get_object_or_404\<close> turns a missing row into \<open>Http404\<close>.  \<open>user.authoruser\<close> is
  the reverse of the one-to-one field and raises when the user has no author profile.
  \<open>author.book_set.all()\<close> are the books whose \<open>author\<close> relation holds the
  profile; \<open>book in queryset\<close> compares keys.
\<close>

definition get_object_or_404 :: "string \<Rightarrow> ('a \<Rightarrow> bool) \<Rightarrow> 'a list \<Rightarrow> exc + 'a" where
  "get_object_or_404 model P rows =
     (case objects_get model P rows of
        Inl e \<Rightarrow> if is_DoesNotExist e then Inl (Http404 model) else Inl e
      | Inr x \<Rightarrow> Inr x)"

definition authoruser :: "database \<Rightarrow> CustomUser \<Rightarrow> exc + AuthorUser" where
  "authoruser db user =
     (case objects_get ''AuthorUser'' (\<lambda>a. user_id a = pk user) (AuthorUser_objects db) of
        Inl e \<Rightarrow>
          if is_DoesNotExist e then Inl (RelatedObjectDoesNotExist ''CustomUser has no authoruser.'')
          else Inl e
      | Inr a \<Rightarrow> Inr a)"

definition book_set :: "database \<Rightarrow> AuthorUser \<Rightarrow> Book list" where
  "book_set db a = filter (\<lambda>b. author_id a \<in> author b) (Book_objects db)"

definition book_in :: "Book \<Rightarrow> Book list \<Rightarrow> bool" where
  "book_in book queryset = list_ex (\<lambda>b. bookid b = bookid book) queryset"

text \<open>
  \<open>AuthorUser\<close> has the reverse accessor \<open>book_set\<close> and no attribute \<open>book\<close>:
  reading \<open>user.authoruser.book\<close> raises \<open>AttributeError\<close>.
\<close>

definition AuthorUser_book :: "database \<Rightarrow> AuthorUser \<Rightarrow> exc + Book list" where
  "AuthorUser_book db a = Inl (AttributeError ''AuthorUser'' ''book'')"

definition Book_save :: "Book \<Rightarrow> Book list \<Rightarrow> Book list" where
  "Book_save b rows =
     (if list_ex (\<lambda>r. bookid r = bookid b) rows
      then map (\<lambda>r. if bookid r = bookid b then b else r) rows
      else rows @ [b])"

definition Book_delete :: "Book \<Rightarrow> database \<Rightarrow> database" where
  "Book_delete book db =
     db\<lparr>Book_objects := filter (\<lambda>r. bookid r \<noteq> bookid book) (Book_objects db)\<rparr>"

definition str_arg :: "string option \<Rightarrow> pyval" where
  "str_arg a = (case a of None \<Rightarrow> PyNone | Some s \<Rightarrow> PyStr s)"

text \<open>\<open>EditBookMutation.mutate\<close>: \<open>all_query\<close> always holds all eight keys.\<close>

definition all_query ::
  "string option \<Rightarrow> string option \<Rightarrow> string option \<Rightarrow> string option \<Rightarrow> string option
     \<Rightarrow> string option \<Rightarrow> string option \<Rightarrow> string option \<Rightarrow> (string \<rightharpoonup> pyval)" where
  "all_query noofreviews_arg bookpages_arg rating_arg publishyear_arg avaliablecopies_arg
       title_arg isbn_arg description_arg =
     [''title'' \<mapsto> str_arg title_arg, ''isbn'' \<mapsto> str_arg isbn_arg,
      ''description'' \<mapsto> str_arg description_arg, ''noofreviews'' \<mapsto> str_arg noofreviews_arg,
      ''avaliablecopies'' \<mapsto> str_arg avaliablecopies_arg, ''rating'' \<mapsto> str_arg rating_arg,
      ''publishyear'' \<mapsto> str_arg publishyear_arg, ''bookpages'' \<mapsto> str_arg bookpages_arg]"

definition EditBookMutation_mutate ::
  "(CustomUser \<Rightarrow> string \<Rightarrow> bool) \<Rightarrow> request \<Rightarrow> database \<Rightarrow> nat
     \<Rightarrow> string option \<Rightarrow> string option \<Rightarrow> string option \<Rightarrow> string option \<Rightarrow> string option
     \<Rightarrow> string option \<Rightarrow> string option \<Rightarrow> string option
     \<Rightarrow> (exc + unit) \<times> request \<times> database" where
  "EditBookMutation_mutate check_token request db bookid_arg noofreviews_arg bookpages_arg
       rating_arg publishyear_arg avaliablecopies_arg title_arg isbn_arg description_arg =
     reraise
       (case verify_header check_token request db of
          (Inl e, request, db) \<Rightarrow> (Inl e, request, db)
        | (Inr user, request, db) \<Rightarrow>
            if \<not> is_author user then (Inl (GraphQLError ''User is not an author''), request, db)
            else
              (case get_object_or_404 ''Book'' (\<lambda>b. bookid b = bookid_arg) (Book_objects db) of
                 Inl e \<Rightarrow> (Inl e, request, db)
               | Inr book \<Rightarrow>
                   (case authoruser db user of
                      Inl e \<Rightarrow> (Inl e, request, db)
                    | Inr a \<Rightarrow>
                        (case AuthorUser_book db a of
                           Inl e \<Rightarrow> (Inl e, request, db)
                         | Inr queryset \<Rightarrow>
                             if \<not> book_in book queryset
                             then (Inl (GraphQLError ''User not the author of Book''), request, db)
                             else
                               (let book = edit_book book
                                      (all_query noofreviews_arg bookpages_arg rating_arg
                                         publishyear_arg avaliablecopies_arg title_arg isbn_arg
                                         description_arg)
                                in (Inr (), request,
                                    db\<lparr>Book_objects := Book_save book (Book_objects db)\<rparr>))))))"

text \<open>
  \<open>DeleteBookMutation.mutate(info, bookid)\<close>: the book is looked up before the role
  is tested, and the error of the ownership test is raised when the book \<^emph>\<open>is\<close> among
  the author's books.
\<close>

definition DeleteBookMutation_mutate ::
  "(CustomUser \<Rightarrow> string \<Rightarrow> bool) \<Rightarrow> request \<Rightarrow> database \<Rightarrow> nat
     \<Rightarrow> (exc + unit) \<times> request \<times> database" where
  "DeleteBookMutation_mutate check_token request db bookid_arg =
     reraise
       (case verify_header check_token request db of
          (Inl e, request, db) \<Rightarrow> (Inl e, request, db)
        | (Inr user, request, db) \<Rightarrow>
            (case get_object_or_404 ''Book'' (\<lambda>b. bookid b = bookid_arg) (Book_objects db) of
               Inl e \<Rightarrow> (Inl e, request, db)
             | Inr book \<Rightarrow>
                 if \<not> is_author user
                 then (Inl (GraphQLError ''User is not an author''), request, db)
                 else
                   (case authoruser db user of
                      Inl e \<Rightarrow> (Inl e, request, db)
                    | Inr a \<Rightarrow>
                        if book_in book (book_set db a)
                        then (Inl (GraphQLError ''User not the author of Book''), request, db)
                        else (Inr (), request, Book_delete book db))))"

text \<open>
  \<open>AddToBook.mutate(self, info)\<close>, the shared first half of the four relation
  mutations.  Its body reads the name \<open>bookid\<close>, which is neither a parameter or local
  of the method nor a global of the module: the read raises \<open>NameError\<close>.  On success
  the method would leave the book in \<open>self.book\<close>, the value returned here.
\<close>

definition AddToBook_bookid :: "exc + nat" where
  "AddToBook_bookid = Inl (NameError ''bookid'')"

definition AddToBook_mutate ::
  "(CustomUser \<Rightarrow> string \<Rightarrow> bool) \<Rightarrow> request \<Rightarrow> database
     \<Rightarrow> (exc + Book) \<times> request \<times> database" where
  "AddToBook_mutate check_token request db =
     reraise
       (case verify_header check_token request db of
          (Inl e, request, db) \<Rightarrow> (Inl e, request, db)
        | (Inr user, request, db) \<Rightarrow>
            if \<not> is_author user then (Inl (GraphQLError ''User is not an author''), request, db)
            else
              (case AddToBook_bookid of
                 Inl e \<Rightarrow> (Inl e, request, db)
               | Inr bookid_read \<Rightarrow>
                   (case objects_get ''Book'' (\<lambda>b. bookid b = bookid_read) (Book_objects db) of
                      Inl e \<Rightarrow> (Inl e, request, db)
                    | Inr book \<Rightarrow>
                        (case authoruser db user of
                           Inl e \<Rightarrow> (Inl e, request, db)
                         | Inr a \<Rightarrow>
                             if \<not> book_in book (book_set db a)
                             then (Inl (GraphQLError ''User not an author of Book''), request, db)
                             else (Inr book, request, db)))))"

text \<open>
  The four relation mutations.  Each runs \<open>super().mutate(info)\<close> first and hands any
  exception back as \<open>GraphQLError(str(e))\<close>, which the execution layer reports as an
  error like a raised one.  \<open>AuthorUser.objects.get(authorid=...)\<close> names a field the
  model does not have (\<open>FieldError\<close>); \<open>Genre\<close> is not a name of the module
  (\<open>NameError\<close>).
\<close>

definition AuthorUser_objects_get_authorid :: "database \<Rightarrow> nat \<Rightarrow> exc + AuthorUser" where
  "AuthorUser_objects_get_authorid db authorid_arg = Inl (FieldError ''authorid'')"

definition books_views_Genre :: "database \<Rightarrow> nat \<Rightarrow> exc + Genre" where
  "books_views_Genre db genreid_arg = Inl (NameError ''Genre'')"

definition AddAuthorToBookMutation_mutate ::
  "(CustomUser \<Rightarrow> string \<Rightarrow> bool) \<Rightarrow> request \<Rightarrow> database \<Rightarrow> nat \<Rightarrow> nat
     \<Rightarrow> (exc + unit) \<times> request \<times> database" where
  "AddAuthorToBookMutation_mutate check_token request db bookid_arg authorid_arg =
     reraise
       (case AddToBook_mutate check_token request db of
          (Inl e, request, db) \<Rightarrow> (Inl e, request, db)
        | (Inr self_book, request, db) \<Rightarrow>
            (case AuthorUser_objects_get_authorid db authorid_arg of
               Inl e \<Rightarrow> (Inl e, request, db)
             | Inr a \<Rightarrow>
                 if \<not> (author_id a \<in> author self_book)
                 then (Inr (), request,
                       db\<lparr>Book_objects :=
                            Book_save (self_book\<lparr>author := insert (author_id a) (author self_book)\<rparr>)
                              (Book_objects db)\<rparr>)
                 else (Inr (), request, db)))"

definition AddGenreToBookMutation_mutate ::
  "(CustomUser \<Rightarrow> string \<Rightarrow> bool) \<Rightarrow> request \<Rightarrow> database \<Rightarrow> nat \<Rightarrow> nat
     \<Rightarrow> (exc + unit) \<times> request \<times> database" where
  "AddGenreToBookMutation_mutate check_token request db bookid_arg genreid_arg =
     reraise
       (case AddToBook_mutate check_token request db of
          (Inl e, request, db) \<Rightarrow> (Inl e, request, db)
        | (Inr self_book, request, db) \<Rightarrow>
            (case books_views_Genre db genreid_arg of
               Inl e \<Rightarrow> (Inl e, request, db)
             | Inr g \<Rightarrow>
                 if \<not> (genreid g \<in> genres self_book)
                 then (Inr (), request,
                       db\<lparr>Book_objects :=
                            Book_save (self_book\<lparr>genres := insert (genreid g) (genres self_book)\<rparr>)
                              (Book_objects db)\<rparr>)
                 else (Inr (), request, db)))"

definition RemoveAuthorFromBookMutation_mutate ::
  "(CustomUser \<Rightarrow> string \<Rightarrow> bool) \<Rightarrow> request \<Rightarrow> database \<Rightarrow> nat \<Rightarrow> nat
     \<Rightarrow> (exc + unit) \<times> request \<times> database" where
  "RemoveAuthorFromBookMutation_mutate check_token request db bookid_arg authorid_arg =
     reraise
       (case AddToBook_mutate check_token request db of
          (Inl e, request, db) \<Rightarrow> (Inl e, request, db)
        | (Inr self_book, request, db) \<Rightarrow>
            (case AuthorUser_objects_get_authorid db authorid_arg of
               Inl e \<Rightarrow> (Inl e, request, db)
             | Inr a \<Rightarrow>
                 if author_id a \<in> author self_book
                 then (Inr (), request,
                       db\<lparr>Book_objects :=
                            Book_save (self_book\<lparr>author := author self_book - {author_id a}\<rparr>)
                              (Book_objects db)\<rparr>)
                 else (Inr (), request, db)))"

definition RemoveGenreFromBookMutation_mutate ::
  "(CustomUser \<Rightarrow> string \<Rightarrow> bool) \<Rightarrow> request \<Rightarrow> database \<Rightarrow> nat \<Rightarrow> nat
     \<Rightarrow> (exc + unit) \<times> request \<times> database" where
  "RemoveGenreFromBookMutation_mutate check_token request db bookid_arg genreid_arg =
     reraise
       (case AddToBook_mutate check_token request db of
          (Inl e, request, db) \<Rightarrow> (Inl e, request, db)
        | (Inr self_book, request, db) \<Rightarrow>
            (case books_views_Genre db genreid_arg of
               Inl e \<Rightarrow> (Inl e, request, db)
             | Inr g \<Rightarrow>
                 if genreid g \<in> genres self_book
                 then (Inr (), request,
                       db\<lparr>Book_objects :=
                            Book_save (self_book\<lparr>genres := genres self_book - {genreid g}\<rparr>)
                              (Book_objects db)\<rparr>)
                 else (Inr (), request, db)))"

section \<open>Database invariant\<close>

text \<open>
  The unique constraints of the user table, which the relational layer keeps: the key,
  the email, the username and the non-null tokens are pairwise different.
\<close>

definition unique_columns :: "CustomUser list \<Rightarrow> bool" where
  "unique_columns rows =
     (distinct (map pk rows) \<and> distinct (map email rows) \<and> distinct (map username rows) \<and>
      distinct (List.map_filter token rows))"

text \<open>The number a string of base-36 digits stands for.\<close>

definition b36_value :: "string \<Rightarrow> nat" where
  "b36_value s = foldl (\<lambda>a c. a * 36 + index_of c char_set) 0 s"

subsection \<open>Example data\<close>

text \<open>
  Instances of the parameters (a generator that accepts or rejects every token, a toy
  password hasher, a toy keyed hash) and a small database: Alice and Bob are authors
  with tokens, Carol has no role and no token, and book 100 is Alice's.
\<close>

definition accept_all :: "CustomUser \<Rightarrow> string \<Rightarrow> bool" where
  "accept_all user tok = True"

definition reject_all :: "CustomUser \<Rightarrow> string \<Rightarrow> bool" where
  "reject_all user tok = False"

definition toy_check_password :: "string \<Rightarrow> string \<Rightarrow> bool" where
  "toy_check_password raw encoded = (encoded = ''hash-'' @ raw)"

definition toy_make_token :: "CustomUser \<Rightarrow> exc + string" where
  "toy_make_token user = Inr (''tok-'' @ username user)"

definition toy_make_password :: "string option \<Rightarrow> string" where
  "toy_make_password raw = (case raw of None \<Rightarrow> ''!'' | Some p \<Rightarrow> ''hash-'' @ p)"

definition toy_normalize_email :: "string \<Rightarrow> string" where
  "toy_normalize_email e = e"

definition toy_salted_hmac :: "string \<Rightarrow> string \<Rightarrow> nat list" where
  "toy_salted_hmac secret v = [length secret, length v]"

definition toy_framework :: framework where
  "toy_framework = \<lparr>salted_hmac = toy_salted_hmac, text_type_datetime = text_type_int,
                     SECRET_KEY = ''secret'', SECRET_KEY_FALLBACKS = [],
                     PASSWORD_RESET_TIMEOUT = 259200\<rparr>"

definition alice :: CustomUser where
  "alice = \<lparr>pk = 1, email = ''a@x.com'', username = ''alice'', first_name = ''Alice'',
            last_name = ''A'', password = ''hash-a'', is_active = True, is_admin = False,
            is_patron = False, is_author = True, token = Some ''T1'', role = ''L''\<rparr>"

definition bob :: CustomUser where
  "bob = \<lparr>pk = 2, email = ''b@x.com'', username = ''bob'', first_name = ''Bob'',
          last_name = ''B'', password = ''hash-b'', is_active = True, is_admin = False,
          is_patron = False, is_author = True, token = Some ''T2'', role = ''L''\<rparr>"

definition carol :: CustomUser where
  "carol = \<lparr>pk = 3, email = ''c@x.com'', username = ''carol'', first_name = ''Carol'',
            last_name = ''C'', password = ''hash-c'', is_active = True, is_admin = False,
            is_patron = False, is_author = False, token = None, role = ''L''\<rparr>"

definition dave :: CustomUser where
  "dave = \<lparr>pk = 4, email = ''d@x.com'', username = ''dave'', first_name = ''Dave'',
           last_name = ''D'', password = ''p1'', is_active = True, is_admin = False,
           is_patron = False, is_author = False, token = None, role = ''L''\<rparr>"

definition fiction :: Genre where
  "fiction = \<lparr>genreid = 5, name = ''Fiction'', description = ''Invented stories''\<rparr>"

definition new_genre :: Genre where
  "new_genre = \<lparr>genreid = 6, name = ''Poetry'', description = ''Verse''\<rparr>"

definition book1 :: Book where
  "book1 = \<lparr>bookid = 100, title = PyStr ''Dune'', isbn = PyStr ''123'',
             book_description = PyStr ''Sand'', author = {10}, genres = {5}, rating = PyInt 0,
             publishyear = PyDate 1965 8 1, avaliablecopies = PyInt 3, noofreviews = PyInt 0,
             bookpages = PyInt 412\<rparr>"

definition db0 :: database where
  "db0 = \<lparr>CustomUser_objects = [alice, bob, carol],
          AuthorUser_objects =
            [\<lparr>author_id = 10, user_id = 1, birthdate = ''1970-01-01'', nationality = ''X''\<rparr>,
             \<lparr>author_id = 20, user_id = 2, birthdate = ''1980-01-01'', nationality = ''Y''\<rparr>],
          Genre_objects = [fiction],
          Book_objects = [book1]\<rparr>"

definition request_with :: "string option \<Rightarrow> request" where
  "request_with h = \<lparr>HTTP_AUTHORIZATION = h, session_user = None\<rparr>"

definition db0_expired :: database where
  "db0_expired = db0\<lparr>CustomUser_objects := [alice\<lparr>token := None\<rparr>, bob, carol]\<rparr>"

definition db0_carol_in :: database where
  "db0_carol_in = db0\<lparr>CustomUser_objects := [alice, bob, carol\<lparr>token := Some ''tok-carol''\<rparr>]\<rparr>"

definition carol_token :: string where
  "carol_token = ''1uo0-01''"

definition db0_carol_token :: database where
  "db0_carol_token = db0\<lparr>CustomUser_objects := [alice, bob, carol\<lparr>token := Some carol_token\<rparr>]\<rparr>"



section \<open>Properties\<close>

subsection \<open>The decision procedure of verify_header\<close>

lemma objects_get_Inr: "objects_get m P rows = Inr x \<Longrightarrow> filter P rows = [x]"
  by (auto simp: objects_get_def split: list.splits)

lemma objects_get_Inl:
  "objects_get m P rows = Inl e \<Longrightarrow> e = DoesNotExist m \<or> e = MultipleObjectsReturned m"
  by (auto simp: objects_get_def split: list.splits)

lemma objects_get_none:
  "\<forall>r\<in>set rows. \<not> P r \<Longrightarrow> objects_get m P rows = Inl (DoesNotExist m)"
  by (simp add: objects_get_def)

lemma objects_get_single: "filter P rows = [x] \<Longrightarrow> objects_get m P rows = Inr x"
  by (simp add: objects_get_def)

lemma filter_unique_key:
  "distinct (List.map_filter f xs) \<Longrightarrow> x \<in> set xs \<Longrightarrow> f x = Some v
     \<Longrightarrow> filter (\<lambda>y. f y = Some v) xs = [x]"
proof (induction xs)
  case Nil
  then show ?case by simp
next
  case (Cons a xs)
  have notin: "f a = Some v \<Longrightarrow> \<forall>y\<in>set xs. f y \<noteq> Some v"
    using Cons.prems(1) by (force simp: List.map_filter_def)
  show ?case
  proof (cases "f a = Some v")
    case True
    with notin have "filter (\<lambda>y. f y = Some v) xs = []" by (simp add: filter_empty_conv)
    moreover have "x = a" using True notin Cons.prems by auto
    ultimately show ?thesis using True by simp
  next
    case False
    then have "x \<in> set xs" using Cons.prems by auto
    moreover have "distinct (List.map_filter f xs)"
      using Cons.prems(1) by (cases "f a") (auto simp: List.map_filter_simps)
    ultimately show ?thesis using Cons.IH Cons.prems(3) False by simp
  qed
qed

lemma no_clash_when_cleared:
  assumes "unique_columns rows" and "u \<in> set rows"
  shows "\<not> list_ex (unique_clash (u\<lparr>token := None\<rparr>)) rows"
proof -
  have e: "distinct (map email rows)" and n: "distinct (map username rows)"
    using assms(1) by (simp_all add: unique_columns_def)
  have "\<not> unique_clash (u\<lparr>token := None\<rparr>) r" if "r \<in> set rows" for r
  proof
    assume c: "unique_clash (u\<lparr>token := None\<rparr>) r"
    then have ne: "pk r \<noteq> pk u" and "email r = email u \<or> username r = username u"
      by (simp_all add: unique_clash_def)
    then have "r = u"
      using e n that assms(2) by (meson distinct_map inj_onD)
    with ne show False by simp
  qed
  then show ?thesis by (simp add: list_ex_iff)
qed

lemma save_cleared:
  assumes "unique_columns rows" and "u \<in> set rows"
  shows "CustomUser_save (u\<lparr>token := None\<rparr>) rows
           = Inr (map (\<lambda>r. if pk r = pk u then u\<lparr>token := None\<rparr> else r) rows)"
  using no_clash_when_cleared[OF assms] assms(2)
  by (auto simp: CustomUser_save_def list_ex_iff)

lemma verify_header_no_holder:
  assumes "HTTP_AUTHORIZATION request = Some tok" and "tok \<noteq> []"
    and "\<forall>u\<in>set (CustomUser_objects db). token u \<noteq> Some tok"
  shows "verify_header check_token request db = (Inl InvalidToken, request, db)"
proof -
  have "objects_get ''CustomUser'' (\<lambda>u. token u = Some tok) (CustomUser_objects db)
          = Inl (DoesNotExist ''CustomUser'')"
    using assms(3) by (intro objects_get_none) simp
  with assms(1,2) show ?thesis
    by (simp add: verify_header_def InvalidToken_def)
qed

lemma verify_header_found:
  assumes "unique_columns (CustomUser_objects db)"
    and "HTTP_AUTHORIZATION request = Some tok" and "tok \<noteq> []"
    and "u \<in> set (CustomUser_objects db)" and "token u = Some tok"
  shows "verify_header check_token request db =
           (if check_token u tok then (Inr u, request, db)
            else (Inl TokenExpired, logout request,
                  db\<lparr>CustomUser_objects :=
                       map (\<lambda>r. if pk r = pk u then u\<lparr>token := None\<rparr> else r)
                         (CustomUser_objects db)\<rparr>))"
proof -
  have "filter (\<lambda>y. token y = Some tok) (CustomUser_objects db) = [u]"
    using assms by (intro filter_unique_key) (auto simp: unique_columns_def)
  then have get: "objects_get ''CustomUser'' (\<lambda>u. token u = Some tok) (CustomUser_objects db) = Inr u"
    by (rule objects_get_single)
  show ?thesis
    using assms(2,3) get save_cleared[OF assms(1,4)]
    by (simp add: verify_header_def TokenExpired_def Let_def)
qed

text \<open>
  C1, as amended.  On a user table that satisfies its unique constraints,
  \<open>verify_header\<close> has exactly four outcomes, decided in this order:
  a missing or empty authorization value fails with \<open>Unauthenticated\<close>;
  a token that no identity stores fails with \<open>InvalidToken\<close>;
  a token stored by an identity for which \<open>check_token\<close> is true returns that identity;
  a token stored by an identity for which \<open>check_token\<close> is false ends the session,
  clears that identity's stored token and fails with \<open>TokenExpired\<close>.
  The first three leave the request and the database as they were.
\<close>

theorem verify_header_decision:
  assumes "unique_columns (CustomUser_objects db)"
  shows "(HTTP_AUTHORIZATION request = None \<or> HTTP_AUTHORIZATION request = Some [] \<longrightarrow>
            verify_header check_token request db = (Inl Unauthenticated, request, db)) \<and>
         (\<forall>tok. HTTP_AUTHORIZATION request = Some tok \<and> tok \<noteq> [] \<and>
                (\<forall>u\<in>set (CustomUser_objects db). token u \<noteq> Some tok) \<longrightarrow>
            verify_header check_token request db = (Inl InvalidToken, request, db)) \<and>
         (\<forall>tok u. HTTP_AUTHORIZATION request = Some tok \<and> tok \<noteq> [] \<and>
                u \<in> set (CustomUser_objects db) \<and> token u = Some tok \<and> check_token u tok \<longrightarrow>
            verify_header check_token request db = (Inr u, request, db)) \<and>
         (\<forall>tok u. HTTP_AUTHORIZATION request = Some tok \<and> tok \<noteq> [] \<and>
                u \<in> set (CustomUser_objects db) \<and> token u = Some tok \<and> \<not> check_token u tok \<longrightarrow>
            verify_header check_token request db =
              (Inl TokenExpired, logout request,
               db\<lparr>CustomUser_objects :=
                    map (\<lambda>r. if pk r = pk u then u\<lparr>token := None\<rparr> else r)
                      (CustomUser_objects db)\<rparr>))"
proof (intro conjI allI impI)
  assume "HTTP_AUTHORIZATION request = None \<or> HTTP_AUTHORIZATION request = Some []"
  then show "verify_header check_token request db = (Inl Unauthenticated, request, db)"
    by (auto simp: verify_header_def Unauthenticated_def)
next
  fix tok
  assume "HTTP_AUTHORIZATION request = Some tok \<and> tok \<noteq> [] \<and>
          (\<forall>u\<in>set (CustomUser_objects db). token u \<noteq> Some tok)"
  then show "verify_header check_token request db = (Inl InvalidToken, request, db)"
    by (simp add: verify_header_no_holder)
next
  fix tok u
  assume "HTTP_AUTHORIZATION request = Some tok \<and> tok \<noteq> [] \<and>
          u \<in> set (CustomUser_objects db) \<and> token u = Some tok \<and> check_token u tok"
  then show "verify_header check_token request db = (Inr u, request, db)"
    using verify_header_found[OF assms, of request tok u check_token] by simp
next
  fix tok u
  assume "HTTP_AUTHORIZATION request = Some tok \<and> tok \<noteq> [] \<and>
          u \<in> set (CustomUser_objects db) \<and> token u = Some tok \<and> \<not> check_token u tok"
  then show "verify_header check_token request db =
              (Inl TokenExpired, logout request,
               db\<lparr>CustomUser_objects :=
                    map (\<lambda>r. if pk r = pk u then u\<lparr>token := None\<rparr> else r)
                      (CustomUser_objects db)\<rparr>)"
    using verify_header_found[OF assms, of request tok u check_token] by simp
qed

lemma unique_db0: "unique_columns (CustomUser_objects db0)"
  by (simp add: unique_columns_def db0_def alice_def bob_def carol_def List.map_filter_simps)

theorem verify_header_decision_witness:
  "unique_columns (CustomUser_objects db0) \<and>
   verify_header reject_all (request_with (Some ''T1'')) db0 =
     (Inl TokenExpired, logout (request_with (Some ''T1'')),
      db0\<lparr>CustomUser_objects := [alice\<lparr>token := None\<rparr>, bob, carol]\<rparr>)"
proof -
  have u: "unique_columns (CustomUser_objects db0)" by (rule unique_db0)
  have pre: "HTTP_AUTHORIZATION (request_with (Some ''T1'')) = Some ''T1'' \<and> ''T1'' \<noteq> [] \<and>
        alice \<in> set (CustomUser_objects db0) \<and> token alice = Some ''T1'' \<and> \<not> reject_all alice ''T1''"
    by (simp add: request_with_def db0_def alice_def reject_all_def)
  have m: "map (\<lambda>r. if pk r = pk alice then alice\<lparr>token := None\<rparr> else r) (CustomUser_objects db0)
            = [alice\<lparr>token := None\<rparr>, bob, carol]"
    by (simp add: db0_def alice_def bob_def carol_def)
  from verify_header_decision[OF u, of "request_with (Some ''T1'')" reject_all] pre
  have "verify_header reject_all (request_with (Some ''T1'')) db0 =
          (Inl TokenExpired, logout (request_with (Some ''T1'')),
           db0\<lparr>CustomUser_objects :=
                 map (\<lambda>r. if pk r = pk alice then alice\<lparr>token := None\<rparr> else r)
                   (CustomUser_objects db0)\<rparr>)"
    by blast
  with u m show ?thesis by simp
qed

text \<open>
  The claim lists three outcomes and says no other is possible: a token that no identity
  stores is a fourth.
\<close>

theorem verify_header_outcome_counterexample:
  "verify_header accept_all (request_with (Some ''bogus'')) db0 =
     (Inl InvalidToken, request_with (Some ''bogus''), db0) \<and>
   InvalidToken \<noteq> Unauthenticated \<and> InvalidToken \<noteq> TokenExpired"
  by (simp add: verify_header_def objects_get_def request_with_def db0_def alice_def bob_def
      carol_def InvalidToken_def Unauthenticated_def TokenExpired_def)

text \<open>
  C4, as amended.  When no identity stores the submitted token (in particular when every
  stored token is null) and the token is not the empty string, the lookup resolves no
  identity and \<open>verify_header\<close> fails with \<open>InvalidToken\<close> whatever
  \<open>check_token\<close> would answer; nothing is changed.
\<close>

theorem unset_token_is_invalid:
  assumes "HTTP_AUTHORIZATION request = Some tok" and "tok \<noteq> []"
    and "\<forall>u\<in>set (CustomUser_objects db). token u \<noteq> Some tok"
  shows "objects_get ''CustomUser'' (\<lambda>u. token u = Some tok) (CustomUser_objects db)
           = Inl (DoesNotExist ''CustomUser'') \<and>
         (\<forall>check_token. verify_header check_token request db = (Inl InvalidToken, request, db))"
proof -
  have "objects_get ''CustomUser'' (\<lambda>u. token u = Some tok) (CustomUser_objects db)
          = Inl (DoesNotExist ''CustomUser'')"
    using assms(3) by (intro objects_get_none) simp
  moreover have "verify_header check_token request db = (Inl InvalidToken, request, db)"
    for check_token
    using assms by (rule verify_header_no_holder)
  ultimately show ?thesis by simp
qed

theorem unset_token_is_invalid_witness:
  "token carol = None \<and>
   verify_header accept_all (request_with (Some ''T9'')) db0 =
     (Inl InvalidToken, request_with (Some ''T9''), db0)"
proof -
  have "HTTP_AUTHORIZATION (request_with (Some ''T9'')) = Some ''T9''"
    by (simp add: request_with_def)
  moreover have "''T9'' \<noteq> []" by simp
  moreover have "\<forall>u\<in>set (CustomUser_objects db0). token u \<noteq> Some ''T9''"
    by (simp add: db0_def alice_def bob_def carol_def)
  ultimately have "verify_header accept_all (request_with (Some ''T9'')) db0 =
     (Inl InvalidToken, request_with (Some ''T9''), db0)"
    using unset_token_is_invalid[of "request_with (Some ''T9'')" "''T9''" db0] by blast
  then show ?thesis by (simp add: carol_def)
qed

text \<open>
  The claim speaks of any submitted string: the empty string is turned away one step
  earlier, with \<open>Unauthenticated\<close>, although the only identity has no stored token.
\<close>

theorem verify_header_empty_header_counterexample:
  "token carol = None \<and>
   verify_header accept_all (request_with (Some [])) (db0\<lparr>CustomUser_objects := [carol]\<rparr>) =
     (Inl Unauthenticated, request_with (Some []), db0\<lparr>CustomUser_objects := [carol]\<rparr>) \<and>
   Unauthenticated \<noteq> InvalidToken"
  by (simp add: verify_header_def request_with_def carol_def InvalidToken_def Unauthenticated_def)

subsection \<open>Login\<close>

lemma filter_unique_column:
  "distinct (map f xs) \<Longrightarrow> x \<in> set xs \<Longrightarrow> filter (\<lambda>y. f y = f x) xs = [x]"
proof (induction xs)
  case Nil
  then show ?case by simp
next
  case (Cons a xs)
  show ?case
  proof (cases "x = a")
    case True
    have "f a \<notin> f ` set xs" using Cons.prems(1) by simp
    then have "\<forall>y\<in>set xs. f y \<noteq> f a" by (metis imageI)
    then have "filter (\<lambda>y. f y = f a) xs = []" by (simp add: filter_empty_conv)
    with True show ?thesis by simp
  next
    case False
    then have xin: "x \<in> set xs" using Cons.prems(2) by simp
    moreover have "f a \<notin> f ` set xs" using Cons.prems(1) by simp
    ultimately have "f a \<noteq> f x" by (metis imageI)
    with Cons.IH Cons.prems(1) xin show ?thesis by simp
  qed
qed

lemma distinct_map_eq:
  "distinct (map f xs) \<Longrightarrow> x \<in> set xs \<Longrightarrow> y \<in> set xs \<Longrightarrow> f x = f y \<Longrightarrow> x = y"
  by (meson distinct_map inj_onD)

lemma map_replace_same:
  assumes d: "distinct (map f xs)" and x: "x \<in> set xs"
  shows "map (\<lambda>r. if f r = f x then x else r) xs = xs"
proof -
  have "\<And>r. r \<in> set xs \<Longrightarrow> (if f r = f x then x else r) = r"
    using distinct_map_eq[OF d] x by metis
  then show ?thesis by (simp add: map_idI)
qed

lemma no_clash_other_columns:
  assumes "unique_columns rows" and "u \<in> set rows" and "r \<in> set rows"
    and "email r = email u \<or> username r = username u"
  shows "pk r = pk u"
proof -
  have e: "distinct (map email rows)" and n: "distinct (map username rows)"
    using assms(1) by (simp_all add: unique_columns_def)
  from assms(4) have "r = u"
  proof
    assume "email r = email u"
    then show ?thesis using distinct_map_eq[OF e assms(3,2)] by simp
  next
    assume "username r = username u"
    then show ?thesis using distinct_map_eq[OF n assms(3,2)] by simp
  qed
  then show ?thesis by simp
qed

lemma token_holder_unique:
  assumes "unique_columns rows" and "u \<in> set rows" and "r \<in> set rows"
    and "token u = Some v" and "token r = Some v"
  shows "r = u"
proof -
  have "filter (\<lambda>y. token y = Some v) rows = [u]"
    using assms(1,2,4) by (intro filter_unique_key) (simp_all add: unique_columns_def)
  moreover have "r \<in> set (filter (\<lambda>y. token y = Some v) rows)"
    using assms(3,5) by simp
  ultimately show ?thesis by simp
qed

lemma save_unchanged:
  assumes "unique_columns rows" and "u \<in> set rows"
  shows "CustomUser_save u rows = Inr rows"
proof -
  have d: "distinct (map pk rows)" using assms(1) by (simp add: unique_columns_def)
  have "\<not> unique_clash u r" if "r \<in> set rows" for r
  proof
    assume c: "unique_clash u r"
    then have ne: "pk r \<noteq> pk u" by (simp add: unique_clash_def)
    from c consider "email r = email u \<or> username r = username u"
      | v where "token u = Some v" and "token r = Some v"
      by (auto simp: unique_clash_def)
    then show False
    proof cases
      case 1
      then show False using no_clash_other_columns[OF assms that] ne by simp
    next
      case 2
      then show False using token_holder_unique[OF assms that] ne by simp
    qed
  qed
  then have "\<not> list_ex (unique_clash u) rows" by (simp add: list_ex_iff)
  moreover have "list_ex (\<lambda>r. pk r = pk u) rows" using assms(2) by (auto simp: list_ex_iff)
  ultimately show ?thesis
    using map_replace_same[OF d assms(2)] by (simp add: CustomUser_save_def)
qed

lemma save_new_token:
  assumes "unique_columns rows" and "u \<in> set rows" and "\<forall>r\<in>set rows. token r \<noteq> Some t"
  shows "CustomUser_save (u\<lparr>token := Some t\<rparr>) rows
           = Inr (map (\<lambda>r. if pk r = pk u then u\<lparr>token := Some t\<rparr> else r) rows)"
proof -
  have "\<not> unique_clash (u\<lparr>token := Some t\<rparr>) r" if "r \<in> set rows" for r
  proof
    assume c: "unique_clash (u\<lparr>token := Some t\<rparr>) r"
    then have ne: "pk r \<noteq> pk u" by (simp add: unique_clash_def)
    have "token r \<noteq> Some t" using assms(3) that by simp
    with c have "email r = email u \<or> username r = username u"
      by (simp add: unique_clash_def)
    then show False using no_clash_other_columns[OF assms(1,2) that] ne by simp
  qed
  then have "\<not> list_ex (unique_clash (u\<lparr>token := Some t\<rparr>)) rows" by (simp add: list_ex_iff)
  moreover have "list_ex (\<lambda>r. pk r = pk u) rows" using assms(2) by (auto simp: list_ex_iff)
  ultimately show ?thesis by (simp add: CustomUser_save_def)
qed

text \<open>
  C8.  Login token lifecycle, for an identity of a user table that satisfies its unique
  constraints.  A failed password check raises the credentials error and changes
  nothing.  A successful check on an identity with no stored token stores the freshly
  generated token on that identity's row (no other row changes) and binds the session.
  A successful check on an identity that already has a token leaves the database as it
  was: the previously issued token stays.
\<close>

theorem login_token_lifecycle:
  assumes "unique_columns (CustomUser_objects db)" and "user \<in> set (CustomUser_objects db)"
  shows "(\<not> check_password p (password user) \<longrightarrow>
            LoginMutation_mutate check_password make_token request db (email user) p =
              (Inl (GraphQLError ''Invalid credentials. Please try again.''), request, db)) \<and>
         (\<forall>t. check_password p (password user) \<and> (token user = None \<or> token user = Some []) \<and>
              make_token user = Inr t \<and>
              (\<forall>r\<in>set (CustomUser_objects db). token r \<noteq> Some t) \<longrightarrow>
            LoginMutation_mutate check_password make_token request db (email user) p =
              (Inr (), login request user,
               db\<lparr>CustomUser_objects :=
                    map (\<lambda>r. if pk r = pk user then user\<lparr>token := Some t\<rparr> else r)
                      (CustomUser_objects db)\<rparr>)) \<and>
         (\<forall>t. check_password p (password user) \<and> token user = Some t \<and> t \<noteq> [] \<longrightarrow>
            LoginMutation_mutate check_password make_token request db (email user) p =
              (Inr (), login request user, db))"
proof -
  have "filter (\<lambda>y. email y = email user) (CustomUser_objects db) = [user]"
    using assms by (intro filter_unique_column) (auto simp: unique_columns_def)
  then have get: "objects_get ''CustomUser'' (\<lambda>u. email u = email user) (CustomUser_objects db)
                    = Inr user"
    by (rule objects_get_single)
  have a: "\<not> check_password p (password user) \<Longrightarrow>
            LoginMutation_mutate check_password make_token request db (email user) p =
              (Inl (GraphQLError ''Invalid credentials. Please try again.''), request, db)"
    using get by (simp add: LoginMutation_mutate_def)
  have b: "\<And>t. check_password p (password user) \<Longrightarrow> token user = None \<or> token user = Some [] \<Longrightarrow>
              make_token user = Inr t \<Longrightarrow>
              \<forall>r\<in>set (CustomUser_objects db). token r \<noteq> Some t \<Longrightarrow>
            LoginMutation_mutate check_password make_token request db (email user) p =
              (Inr (), login request user,
               db\<lparr>CustomUser_objects :=
                    map (\<lambda>r. if pk r = pk user then user\<lparr>token := Some t\<rparr> else r)
                      (CustomUser_objects db)\<rparr>)"
    using get save_new_token[OF assms] by (auto simp: LoginMutation_mutate_def login_def)
  have c: "\<And>t. check_password p (password user) \<Longrightarrow> token user = Some t \<Longrightarrow> t \<noteq> [] \<Longrightarrow>
            LoginMutation_mutate check_password make_token request db (email user) p =
              (Inr (), login request user, db)"
    using get save_unchanged[OF assms] by (simp add: LoginMutation_mutate_def)
  from a b c show ?thesis by blast
qed

theorem login_token_lifecycle_witness:
  "LoginMutation_mutate toy_check_password toy_make_token (request_with None) db0 ''c@x.com'' ''c'' =
     (Inr (), \<lparr>HTTP_AUTHORIZATION = None, session_user = Some 3\<rparr>, db0_carol_in)"
proof -
  have u: "unique_columns (CustomUser_objects db0)" by (rule unique_db0)
  have c: "carol \<in> set (CustomUser_objects db0)" by (simp add: db0_def)
  have pre: "toy_check_password ''c'' (password carol) \<and>
             (token carol = None \<or> token carol = Some []) \<and>
             toy_make_token carol = Inr ''tok-carol'' \<and>
             (\<forall>r\<in>set (CustomUser_objects db0). token r \<noteq> Some ''tok-carol'')"
    by (simp add: toy_check_password_def toy_make_token_def carol_def db0_def alice_def bob_def)
  have e: "email carol = ''c@x.com''" by (simp add: carol_def)
  have m: "db0\<lparr>CustomUser_objects :=
                map (\<lambda>r. if pk r = pk carol then carol\<lparr>token := Some ''tok-carol''\<rparr> else r)
                  (CustomUser_objects db0)\<rparr> = db0_carol_in"
    by (simp add: db0_carol_in_def db0_def alice_def bob_def carol_def)
  have l: "login (request_with None) carol = \<lparr>HTTP_AUTHORIZATION = None, session_user = Some 3\<rparr>"
    by (simp add: login_def request_with_def carol_def)
  from login_token_lifecycle[OF u c, of toy_check_password "''c''" toy_make_token "request_with None"] pre
  have "LoginMutation_mutate toy_check_password toy_make_token (request_with None) db0 (email carol) ''c'' =
          (Inr (), login (request_with None) carol,
           db0\<lparr>CustomUser_objects :=
                map (\<lambda>r. if pk r = pk carol then carol\<lparr>token := Some ''tok-carol''\<rparr> else r)
                  (CustomUser_objects db0)\<rparr>)"
    by blast
  then show ?thesis by (simp only: e m l)
qed

subsection \<open>Expiry\<close>

lemma save_cleared_rows:
  assumes "CustomUser_save (u\<lparr>token := None\<rparr>) rows = Inr rows'" and "u \<in> set rows"
  shows "rows' = map (\<lambda>r. if pk r = pk u then u\<lparr>token := None\<rparr> else r) rows"
proof -
  have "list_ex (\<lambda>r. pk r = pk u) rows" using assms(2) by (auto simp: list_ex_iff)
  with assms(1) show ?thesis
    by (simp add: CustomUser_save_def split: if_splits)
qed

lemma verify_header_expired_cases:
  assumes "verify_header check_token request db = (Inl TokenExpired, request', db')"
  obtains tok u rows' where "HTTP_AUTHORIZATION request = Some tok" and "tok \<noteq> []"
    and "objects_get ''CustomUser'' (\<lambda>u. token u = Some tok) (CustomUser_objects db) = Inr u"
    and "CustomUser_save (u\<lparr>token := None\<rparr>) (CustomUser_objects db) = Inr rows'"
    and "db' = db\<lparr>CustomUser_objects := rows'\<rparr>" and "request' = logout request"
proof (cases "HTTP_AUTHORIZATION request")
  case None
  with assms show ?thesis by (simp add: verify_header_def TokenExpired_def)
next
  case (Some tok)
  show ?thesis
  proof (cases "tok = []")
    case True
    with Some assms show ?thesis by (simp add: verify_header_def TokenExpired_def)
  next
    case ne: False
    show ?thesis
    proof (cases "objects_get ''CustomUser'' (\<lambda>u. token u = Some tok) (CustomUser_objects db)")
      case (Inl e)
      then have "e = DoesNotExist ''CustomUser'' \<or> e = MultipleObjectsReturned ''CustomUser''"
        by (rule objects_get_Inl)
      with Some ne Inl assms show ?thesis
        by (auto simp: verify_header_def TokenExpired_def)
    next
      case (Inr u)
      show ?thesis
      proof (cases "CustomUser_save (u\<lparr>token := None\<rparr>) (CustomUser_objects db)")
        case (Inl e)
        then have "e = IntegrityError"
          by (simp add: CustomUser_save_def split: if_splits)
        with Some ne Inr Inl assms show ?thesis
          by (simp add: verify_header_def TokenExpired_def Let_def split: if_splits)
      next
        case save: (Inr rows')
        with Some ne Inr assms have "db' = db\<lparr>CustomUser_objects := rows'\<rparr>"
          and "request' = logout request"
          by (simp_all add: verify_header_def TokenExpired_def Let_def split: if_splits)
        with Some ne Inr save that show ?thesis by blast
      qed
    qed
  qed
qed

text \<open>
  C3.  Expiry detection is destructive and not repeatable.  When \<open>verify_header\<close> fails
  with \<open>TokenExpired\<close> on a request that presents the token \<open>tok\<close>, the identity that
  held \<open>tok\<close> is stored with a null token afterwards, no identity holds \<open>tok\<close> any
  more, and every later call that presents \<open>tok\<close> (whatever the clock then says) fails
  with \<open>InvalidToken\<close> and changes nothing.
\<close>

theorem expiry_is_destructive:
  assumes "verify_header check_token request db = (Inl TokenExpired, request', db')"
    and "HTTP_AUTHORIZATION request = Some tok"
  shows "(\<exists>u\<in>set (CustomUser_objects db). token u = Some tok \<and>
            u\<lparr>token := None\<rparr> \<in> set (CustomUser_objects db') \<and>
            (\<forall>r\<in>set (CustomUser_objects db'). pk r = pk u \<longrightarrow> token r = None)) \<and>
         (\<forall>r\<in>set (CustomUser_objects db'). token r \<noteq> Some tok) \<and>
         (\<forall>check_token2 request2. HTTP_AUTHORIZATION request2 = Some tok \<longrightarrow>
            verify_header check_token2 request2 db' = (Inl InvalidToken, request2, db') \<and>
            InvalidToken \<noteq> TokenExpired)"
proof -
  let ?rows = "CustomUser_objects db"
  from assms(1) obtain tok' u rows' where h: "HTTP_AUTHORIZATION request = Some tok'"
    and ne': "tok' \<noteq> []"
    and get': "objects_get ''CustomUser'' (\<lambda>u. token u = Some tok') ?rows = Inr u"
    and save: "CustomUser_save (u\<lparr>token := None\<rparr>) ?rows = Inr rows'"
    and db': "db' = db\<lparr>CustomUser_objects := rows'\<rparr>"
    by (rule verify_header_expired_cases)
  from h assms(2) have eq: "tok' = tok" by simp
  from ne' eq have ne: "tok \<noteq> []" by simp
  from get' eq have f: "filter (\<lambda>u. token u = Some tok) ?rows = [u]"
    by (simp add: objects_get_Inr)
  then have fs: "{r \<in> set ?rows. token r = Some tok} = {u}"
    by (metis set_filter list.set(1) list.set(2))
  from fs have uin: "u \<in> set ?rows" and utok: "token u = Some tok"
    by blast+
  from fs have only: "\<And>r. r \<in> set ?rows \<Longrightarrow> token r = Some tok \<Longrightarrow> r = u"
    by blast
  have rows': "rows' = map (\<lambda>r. if pk r = pk u then u\<lparr>token := None\<rparr> else r) ?rows"
    using save_cleared_rows[OF save uin] .
  have none: "\<forall>r\<in>set rows'. token r \<noteq> Some tok"
    unfolding rows' using only by auto
  have a: "u\<lparr>token := None\<rparr> \<in> set rows'"
    unfolding rows' using uin by force
  have b: "\<forall>r\<in>set rows'. pk r = pk u \<longrightarrow> token r = None"
    unfolding rows' by auto
  have c: "verify_header check_token2 request2 db' = (Inl InvalidToken, request2, db')"
    if "HTTP_AUTHORIZATION request2 = Some tok" for check_token2 request2
    using that ne none by (intro verify_header_no_holder) (simp_all add: db')
  have d: "InvalidToken \<noteq> TokenExpired" by (simp add: InvalidToken_def TokenExpired_def)
  from uin utok a b have first: "\<exists>u\<in>set (CustomUser_objects db). token u = Some tok \<and>
            u\<lparr>token := None\<rparr> \<in> set (CustomUser_objects db') \<and>
            (\<forall>r\<in>set (CustomUser_objects db'). pk r = pk u \<longrightarrow> token r = None)"
    by (auto simp: db')
  from none have second: "\<forall>r\<in>set (CustomUser_objects db'). token r \<noteq> Some tok"
    by (simp add: db')
  from first second c d show ?thesis by blast
qed

theorem expiry_is_destructive_witness:
  "verify_header reject_all (request_with (Some ''T1'')) db0 =
     (Inl TokenExpired, logout (request_with (Some ''T1'')), db0_expired) \<and>
   verify_header accept_all (request_with (Some ''T1'')) db0_expired =
     (Inl InvalidToken, request_with (Some ''T1''), db0_expired)"
proof -
  have first: "verify_header reject_all (request_with (Some ''T1'')) db0 =
     (Inl TokenExpired, logout (request_with (Some ''T1'')), db0_expired)"
    by (simp add: verify_header_def objects_get_def CustomUser_save_def unique_clash_def
        request_with_def db0_def db0_expired_def alice_def bob_def carol_def reject_all_def
        TokenExpired_def Let_def)
  have h: "HTTP_AUTHORIZATION (request_with (Some ''T1'')) = Some ''T1''"
    by (simp add: request_with_def)
  from expiry_is_destructive[OF first h] h
  have "verify_header accept_all (request_with (Some ''T1'')) db0_expired =
     (Inl InvalidToken, request_with (Some ''T1''), db0_expired)"
    by blast
  with first show ?thesis by simp
qed

subsection \<open>Book.edit_book\<close>

text \<open>
  The frame of \<open>Book.edit_book\<close>: an attribute whose key is absent from the keyword
  mapping keeps its value, the key of the book and its relations are never touched, and
  each of the seven attributes other than the title takes the value supplied under its
  own key.
\<close>

lemma edit_book_frame:
  "(\<not> has_key kwargs ''isbn'' \<longrightarrow> isbn (edit_book self kwargs) = isbn self) \<and>
   (\<not> has_key kwargs ''title'' \<longrightarrow> title (edit_book self kwargs) = title self) \<and>
   (\<not> has_key kwargs ''rating'' \<longrightarrow> rating (edit_book self kwargs) = rating self) \<and>
   (\<not> has_key kwargs ''bookpages'' \<longrightarrow> bookpages (edit_book self kwargs) = bookpages self) \<and>
   (\<not> has_key kwargs ''description'' \<longrightarrow>
      book_description (edit_book self kwargs) = book_description self) \<and>
   (\<not> has_key kwargs ''publishyear'' \<longrightarrow>
      publishyear (edit_book self kwargs) = publishyear self) \<and>
   (\<not> has_key kwargs ''noofreviews'' \<longrightarrow>
      noofreviews (edit_book self kwargs) = noofreviews self) \<and>
   (\<not> has_key kwargs ''avaliablecopies'' \<longrightarrow>
      avaliablecopies (edit_book self kwargs) = avaliablecopies self) \<and>
   bookid (edit_book self kwargs) = bookid self \<and>
   author (edit_book self kwargs) = author self \<and>
   genres (edit_book self kwargs) = genres self"
  by (simp add: edit_book_def)

lemma edit_book_siblings:
  "(has_key kwargs ''isbn'' \<longrightarrow> isbn (edit_book self kwargs) = kwargs_get kwargs ''isbn'') \<and>
   (has_key kwargs ''rating'' \<longrightarrow> rating (edit_book self kwargs) = kwargs_get kwargs ''rating'') \<and>
   (has_key kwargs ''bookpages'' \<longrightarrow>
      bookpages (edit_book self kwargs) = kwargs_get kwargs ''bookpages'') \<and>
   (has_key kwargs ''description'' \<longrightarrow>
      book_description (edit_book self kwargs) = kwargs_get kwargs ''description'') \<and>
   (has_key kwargs ''publishyear'' \<longrightarrow>
      publishyear (edit_book self kwargs) = kwargs_get kwargs ''publishyear'') \<and>
   (has_key kwargs ''noofreviews'' \<longrightarrow>
      noofreviews (edit_book self kwargs) = kwargs_get kwargs ''noofreviews'') \<and>
   (has_key kwargs ''avaliablecopies'' \<longrightarrow>
      avaliablecopies (edit_book self kwargs) = kwargs_get kwargs ''avaliablecopies'')"
  by (simp add: edit_book_def)

lemma edit_book_title_of_mutation:
  "title (edit_book self (all_query a1 a2 a3 a4 a5 a6 a7 a8)) = PyNone"
  by (simp add: edit_book_def has_key_def kwargs_get_def all_query_def title_backquote_def)


subsection \<open>Genre mutations\<close>

lemma verify_header_Inr:
  assumes "fst (verify_header check_token request db) = Inr user"
  shows "verify_header check_token request db = (Inr user, request, db)"
proof (cases "HTTP_AUTHORIZATION request")
  case None
  with assms show ?thesis by (simp add: verify_header_def)
next
  case (Some tok)
  show ?thesis
  proof (cases "objects_get ''CustomUser'' (\<lambda>u. token u = Some tok) (CustomUser_objects db)")
    case (Inl e)
    with Some assms show ?thesis by (simp add: verify_header_def split: if_splits)
  next
    case (Inr u)
    with Some assms show ?thesis
      by (simp add: verify_header_def Let_def split: if_splits sum.splits)
  qed
qed

lemma genre_get:
  assumes "distinct (map genreid rows)" and "g \<in> set rows"
  shows "objects_get ''Genre'' (\<lambda>x. genreid x = genreid g) rows = Inr g"
  using filter_unique_column[OF assms] by (rule objects_get_single)

text \<open>
  C9.  The genre mutations gate on \<open>verify_header\<close> alone.  Whenever
  \<open>verify_header\<close> returns an identity, whatever that identity's role flags are,
  creating a genre appends the new row, editing a stored genre writes the given name and
  description over it (an argument that is \<open>None\<close> keeps the stored value), and deleting
  a stored genre removes its row; all three succeed.  The genre table has unique keys.
\<close>

theorem genre_mutations_need_only_a_token:
  assumes "fst (verify_header check_token request db) = Inr user"
    and "distinct (map genreid (Genre_objects db))" and "g \<in> set (Genre_objects db)"
  shows "CreateGenreMutation_mutate check_token request db n d =
           (Inr None, request,
            db\<lparr>Genre_objects := Genre_objects db @
                 [\<lparr>genreid = uuid4 (map genreid (Genre_objects db)), name = n, description = d\<rparr>]\<rparr>) \<and>
         EditGenreMutation_mutate check_token request db name_arg description_arg (genreid g) =
           (Inr (Some (g\<lparr>name := (case name_arg of Some n \<Rightarrow> n | None \<Rightarrow> name g),
                          description := (case description_arg of Some d \<Rightarrow> d
                                          | None \<Rightarrow> description g)\<rparr>)),
            request,
            db\<lparr>Genre_objects :=
                 map (\<lambda>r. if genreid r = genreid g
                           then g\<lparr>name := (case name_arg of Some n \<Rightarrow> n | None \<Rightarrow> name g),
                                  description := (case description_arg of Some d \<Rightarrow> d
                                                  | None \<Rightarrow> description g)\<rparr>
                           else r)
                   (Genre_objects db)\<rparr>) \<and>
         DeleteGenreMutation_mutate check_token request db (genreid g) =
           (Inr (), request, Genre_delete g db) \<and>
         genreid g \<notin> genreid ` set (Genre_objects (Genre_delete g db))"
proof -
  have v: "verify_header check_token request db = (Inr user, request, db)"
    using assms(1) by (rule verify_header_Inr)
  have get: "objects_get ''Genre'' (\<lambda>x. genreid x = genreid g) (Genre_objects db) = Inr g"
    using assms(2,3) by (rule genre_get)
  have ex: "list_ex (\<lambda>r. genreid r = genreid g) (Genre_objects db)"
    using assms(3) by (auto simp: list_ex_iff)
  have c: "CreateGenreMutation_mutate check_token request db n d =
           (Inr None, request,
            db\<lparr>Genre_objects := Genre_objects db @
                 [\<lparr>genreid = uuid4 (map genreid (Genre_objects db)), name = n, description = d\<rparr>]\<rparr>)"
    using v by (simp add: CreateGenreMutation_mutate_def reraise_def Genre_objects_create_def Let_def)
  have e: "EditGenreMutation_mutate check_token request db name_arg description_arg (genreid g) =
           (Inr (Some (g\<lparr>name := (case name_arg of Some n \<Rightarrow> n | None \<Rightarrow> name g),
                          description := (case description_arg of Some d \<Rightarrow> d
                                          | None \<Rightarrow> description g)\<rparr>)),
            request,
            db\<lparr>Genre_objects :=
                 map (\<lambda>r. if genreid r = genreid g
                           then g\<lparr>name := (case name_arg of Some n \<Rightarrow> n | None \<Rightarrow> name g),
                                  description := (case description_arg of Some d \<Rightarrow> d
                                                  | None \<Rightarrow> description g)\<rparr>
                           else r)
                   (Genre_objects db)\<rparr>)"
    using v get ex
    by (cases description_arg)
       (simp_all add: EditGenreMutation_mutate_def reraise_def Genre_save_def Let_def)
  have d: "DeleteGenreMutation_mutate check_token request db (genreid g) =
           (Inr (), request, Genre_delete g db)"
    using v get by (simp add: DeleteGenreMutation_mutate_def reraise_def)
  have gone: "genreid g \<notin> genreid ` set (Genre_objects (Genre_delete g db))"
    by (auto simp: Genre_delete_def)
  from c e d gone show ?thesis by simp
qed

theorem genre_mutations_need_only_a_token_witness:
  "\<not> is_admin carol \<and> \<not> is_author carol \<and> \<not> is_patron carol \<and>
   CreateGenreMutation_mutate accept_all (request_with (Some ''tok-carol'')) db0_carol_in
       ''Poetry'' ''Verse'' =
     (Inr None, request_with (Some ''tok-carol''),
      db0_carol_in\<lparr>Genre_objects := [fiction, new_genre]\<rparr>) \<and>
   EditGenreMutation_mutate accept_all (request_with (Some ''tok-carol'')) db0_carol_in
       (Some ''Novels'') None 5 =
     (Inr (Some (fiction\<lparr>name := ''Novels''\<rparr>)), request_with (Some ''tok-carol''),
      db0_carol_in\<lparr>Genre_objects := [fiction\<lparr>name := ''Novels''\<rparr>]\<rparr>) \<and>
   DeleteGenreMutation_mutate accept_all (request_with (Some ''tok-carol'')) db0_carol_in 5 =
     (Inr (), request_with (Some ''tok-carol''), Genre_delete fiction db0_carol_in)"
proof -
  let ?r = "request_with (Some ''tok-carol'')"
  have v: "fst (verify_header accept_all ?r db0_carol_in) = Inr (carol\<lparr>token := Some ''tok-carol''\<rparr>)"
    by (simp add: verify_header_def objects_get_def request_with_def db0_carol_in_def db0_def
        alice_def bob_def carol_def accept_all_def)
  have g: "Genre_objects db0_carol_in = [fiction]"
    by (simp add: db0_carol_in_def db0_def)
  have d: "distinct (map genreid (Genre_objects db0_carol_in))" by (simp add: g)
  have m: "fiction \<in> set (Genre_objects db0_carol_in)" by (simp add: g)
  have i: "genreid fiction = 5" by (simp add: fiction_def)
  have n: "uuid4 [5] = 6" by (simp add: uuid4_def)
  have f: "\<not> is_admin carol \<and> \<not> is_author carol \<and> \<not> is_patron carol"
    by (simp add: carol_def)
  from genre_mutations_need_only_a_token[OF v d m, of "''Poetry''" "''Verse''" "Some ''Novels''" None]
  show ?thesis using f by (simp add: n g i new_genre_def fiction_def)
qed

subsection \<open>Signup\<close>

text \<open>
  C5.  The signup mutation creates the account with \<open>CustomUser.objects.create\<close>,
  which stores the supplied password as it is: after signing up with the password
  \<open>p1\<close> the password column of the new row is the string \<open>p1\<close>.  The manager's
  \<open>create_user\<close>, on the same input, stores the result of \<open>make_password\<close>.
\<close>

theorem signup_stores_raw_password:
  "SignUpMutation_mutate (request_with None) db0 ''d@x.com'' ''dave'' ''Dave'' ''D'' ''p1'' ''p1'' =
     (Inr (), request_with None, db0\<lparr>CustomUser_objects := [alice, bob, carol, dave]\<rparr>) \<and>
   password dave = ''p1'' \<and>
   create_user toy_make_password toy_normalize_email db0 ''d@x.com'' (Some ''p1'') dave =
     Inr (dave\<lparr>password := ''hash-p1''\<rparr>,
          db0\<lparr>CustomUser_objects := [alice, bob, carol, dave\<lparr>password := ''hash-p1''\<rparr>]\<rparr>)"
  by (simp add: SignUpMutation_mutate_def reraise_def CustomUser_objects_create_def
      create_user_def set_password_def toy_make_password_def toy_normalize_email_def
      CustomUser_save_def unique_clash_def next_pk_def Let_def
      db0_def alice_def bob_def carol_def dave_def)

lemma create_user_hashes:
  assumes "create_user make_password normalize_email db e p kwargs = Inr (u, db')"
  shows "password u = make_password p"
  using assms
  by (auto simp: create_user_def set_password_def CustomUser_save_def Let_def
      split: if_splits sum.splits)

subsection \<open>Book guards and relation mutations\<close>

text \<open>
  C6.  The ownership guard of the delete mutation is inverted.  Bob is an author with
  a valid token whose author record (key 20) is not among the authors of book 100:
  his delete succeeds and the book is gone.  Alice, whose record (key 10) is the
  book's author, is the one refused with the ownership error.  Bob's edit of the book
  does fail and changes nothing, but with the message of an \<open>AttributeError\<close>, since the
  edit mutation reads \<open>user.authoruser.book\<close>.
\<close>

theorem delete_book_guard_is_inverted:
  "is_author bob \<and> 20 \<notin> author book1 \<and>
   authoruser db0 bob =
     Inr \<lparr>author_id = 20, user_id = 2, birthdate = ''1980-01-01'', nationality = ''Y''\<rparr> \<and>
   DeleteBookMutation_mutate accept_all (request_with (Some ''T2'')) db0 100 =
     (Inr (), request_with (Some ''T2''), db0\<lparr>Book_objects := []\<rparr>) \<and>
   DeleteBookMutation_mutate accept_all (request_with (Some ''T1'')) db0 100 =
     (Inl (GraphQLError ''User not the author of Book''), request_with (Some ''T1''), db0) \<and>
   EditBookMutation_mutate accept_all (request_with (Some ''T2'')) db0 100
       None None None None None (Some ''Emma'') None None =
     (Inl (GraphQLError (str_exc (AttributeError ''AuthorUser'' ''book''))),
      request_with (Some ''T2''), db0)"
  by (simp add: DeleteBookMutation_mutate_def EditBookMutation_mutate_def reraise_def
      verify_header_def objects_get_def get_object_or_404_def authoruser_def book_set_def
      book_in_def Book_delete_def AuthorUser_book_def accept_all_def request_with_def
      db0_def alice_def bob_def carol_def book1_def)

lemma delete_by_other_author:
  assumes "fst (verify_header check_token request db) = Inr user" and "is_author user"
    and "get_object_or_404 ''Book'' (\<lambda>b. bookid b = bookid_arg) (Book_objects db) = Inr book"
    and "authoruser db user = Inr a" and "\<not> book_in book (book_set db a)"
  shows "DeleteBookMutation_mutate check_token request db bookid_arg =
           (Inr (), request, Book_delete book db)"
  using verify_header_Inr[OF assms(1)] assms(2-5)
  by (simp add: DeleteBookMutation_mutate_def reraise_def)

lemma AddToBook_mutate_fails:
  "isl (fst (AddToBook_mutate check_token request db)) \<and>
   Book_objects (snd (snd (AddToBook_mutate check_token request db))) = Book_objects db"
proof (cases "verify_header check_token request db")
  case (fields res request' db')
  have b: "Book_objects db' = Book_objects db"
    using fields by (auto simp: verify_header_def Let_def split: option.splits if_splits sum.splits)
  show ?thesis
    using fields b
    by (cases res) (simp_all add: AddToBook_mutate_def reraise_def AddToBook_bookid_def)
qed

lemma AddToBook_mutate_author:
  assumes "fst (verify_header check_token request db) = Inr user" and "is_author user"
  shows "AddToBook_mutate check_token request db =
           (Inl (GraphQLError (str_exc (NameError ''bookid''))), request, db)"
  using verify_header_Inr[OF assms(1)] assms(2)
  by (simp add: AddToBook_mutate_def reraise_def AddToBook_bookid_def)

lemma relation_mutations_fail:
  assumes "fst (verify_header check_token request db) = Inr user" and "is_author user"
  shows "AddAuthorToBookMutation_mutate check_token request db b x =
           (Inl (GraphQLError (str_exc (NameError ''bookid''))), request, db)"
    and "RemoveAuthorFromBookMutation_mutate check_token request db b x =
           (Inl (GraphQLError (str_exc (NameError ''bookid''))), request, db)"
    and "AddGenreToBookMutation_mutate check_token request db b x =
           (Inl (GraphQLError (str_exc (NameError ''bookid''))), request, db)"
    and "RemoveGenreFromBookMutation_mutate check_token request db b x =
           (Inl (GraphQLError (str_exc (NameError ''bookid''))), request, db)"
  using AddToBook_mutate_author[OF assms]
  by (simp_all add: AddAuthorToBookMutation_mutate_def RemoveAuthorFromBookMutation_mutate_def
      AddGenreToBookMutation_mutate_def RemoveGenreFromBookMutation_mutate_def reraise_def)

lemma relation_mutations_always_fail:
  "isl (fst (AddAuthorToBookMutation_mutate check_token request db b x))"
  "isl (fst (RemoveAuthorFromBookMutation_mutate check_token request db b x))"
  "isl (fst (AddGenreToBookMutation_mutate check_token request db b x))"
  "isl (fst (RemoveGenreFromBookMutation_mutate check_token request db b x))"
proof -
  obtain e request' db' where "AddToBook_mutate check_token request db = (Inl e, request', db')"
    using AddToBook_mutate_fails[of check_token request db]
    by (cases "AddToBook_mutate check_token request db") (auto simp: isl_def)
  then show "isl (fst (AddAuthorToBookMutation_mutate check_token request db b x))"
    "isl (fst (RemoveAuthorFromBookMutation_mutate check_token request db b x))"
    "isl (fst (AddGenreToBookMutation_mutate check_token request db b x))"
    "isl (fst (RemoveGenreFromBookMutation_mutate check_token request db b x))"
    by (simp_all add: AddAuthorToBookMutation_mutate_def RemoveAuthorFromBookMutation_mutate_def
        AddGenreToBookMutation_mutate_def RemoveGenreFromBookMutation_mutate_def reraise_def)
qed

text \<open>
  C7.  None of the four relation mutations succeeds.  Alice is an author of book 100
  with a valid token.  Removing author 20 or genre 7, which are not on the book, and
  adding author 10 or genre 5, which are, all end in the same error: the
  \<open>NameError\<close> of the shared first half, handed back as a \<open>GraphQLError\<close>.  The
  database is unchanged.
\<close>

theorem relation_mutations_never_succeed:
  "is_author alice \<and> author book1 = {10} \<and> genres book1 = {5} \<and>
   RemoveAuthorFromBookMutation_mutate accept_all (request_with (Some ''T1'')) db0 100 20 =
     (Inl (GraphQLError (str_exc (NameError ''bookid''))), request_with (Some ''T1''), db0) \<and>
   RemoveGenreFromBookMutation_mutate accept_all (request_with (Some ''T1'')) db0 100 7 =
     (Inl (GraphQLError (str_exc (NameError ''bookid''))), request_with (Some ''T1''), db0) \<and>
   AddAuthorToBookMutation_mutate accept_all (request_with (Some ''T1'')) db0 100 10 =
     (Inl (GraphQLError (str_exc (NameError ''bookid''))), request_with (Some ''T1''), db0) \<and>
   AddGenreToBookMutation_mutate accept_all (request_with (Some ''T1'')) db0 100 5 =
     (Inl (GraphQLError (str_exc (NameError ''bookid''))), request_with (Some ''T1''), db0)"
proof -
  have v: "fst (verify_header accept_all (request_with (Some ''T1'')) db0) = Inr alice"
    by (simp add: verify_header_def objects_get_def request_with_def db0_def
        alice_def bob_def carol_def accept_all_def)
  have a: "is_author alice" by (simp add: alice_def)
  have b: "author book1 = {10} \<and> genres book1 = {5}" by (simp add: book1_def)
  from relation_mutations_fail[OF v a] a b show ?thesis by simp
qed

subsection \<open>The token round trip\<close>

lemma index_of_nth:
  "distinct xs \<Longrightarrow> k < length xs \<Longrightarrow> index_of (xs ! k) xs = k"
proof (induction xs arbitrary: k)
  case Nil
  then show ?case by simp
next
  case (Cons a xs)
  show ?case
  proof (cases k)
    case 0
    then show ?thesis by simp
  next
    case (Suc j)
    with Cons.prems have j: "j < length xs" and "xs ! j \<noteq> a"
      by (auto simp: nth_mem)
    with Cons.IH Cons.prems(1) Suc show ?thesis by simp
  qed
qed

lemma char_set_facts:
  "length char_set = 36" "distinct char_set" "CHR ''-'' \<notin> set char_set"
  by (simp_all add: char_set_def)

lemma b36_loop_append: "b36_loop i acc = b36_loop i [] @ acc"
proof (induction i arbitrary: acc rule: less_induct)
  case (less i)
  show ?case
  proof (cases "i = 0")
    case True
    then show ?thesis by (simp add: b36_loop.simps)
  next
    case False
    then have d: "i div 36 < i" by simp
    have "b36_loop i acc = b36_loop (i div 36) (char_set ! (i mod 36) # acc)"
      using False by (simp add: b36_loop.simps[of i])
    also have "\<dots> = b36_loop (i div 36) [] @ (char_set ! (i mod 36) # acc)"
      using less.IH[OF d] .
    also have "\<dots> = (b36_loop (i div 36) [] @ [char_set ! (i mod 36)]) @ acc"
      by simp
    also have "b36_loop (i div 36) [] @ [char_set ! (i mod 36)] = b36_loop (i div 36) [char_set ! (i mod 36)]"
      using less.IH[OF d, of "[char_set ! (i mod 36)]"] by simp
    also have "\<dots> = b36_loop i []"
      using False by (simp add: b36_loop.simps[of i])
    finally show ?thesis .
  qed
qed

lemma b36_loop_step:
  "0 < i \<Longrightarrow> b36_loop i [] = b36_loop (i div 36) [] @ [char_set ! (i mod 36)]"
  using b36_loop_append[of "i div 36" "[char_set ! (i mod 36)]"]
  by (simp add: b36_loop.simps[of i])

lemma b36_loop_zero: "b36_loop 0 [] = []"
  by (simp add: b36_loop.simps)

lemma b36_value_snoc: "b36_value (s @ [c]) = b36_value s * 36 + index_of c char_set"
  by (simp add: b36_value_def)

lemma b36_value_loop: "b36_value (b36_loop i []) = i"
proof (induction i rule: less_induct)
  case (less i)
  show ?case
  proof (cases "i = 0")
    case True
    then show ?thesis by (simp add: b36_loop_zero b36_value_def)
  next
    case False
    then have d: "i div 36 < i" and p: "0 < i" by simp_all
    have k: "i mod 36 < length char_set" by (simp add: char_set_facts)
    have "b36_value (b36_loop i []) = b36_value (b36_loop (i div 36) []) * 36 + index_of (char_set ! (i mod 36)) char_set"
      by (simp add: b36_loop_step[OF p] b36_value_snoc)
    also have "\<dots> = (i div 36) * 36 + i mod 36"
      using less.IH[OF d] index_of_nth[OF char_set_facts(2) k] by simp
    finally show ?thesis by simp
  qed
qed

lemma b36_loop_chars: "set (b36_loop i []) \<subseteq> set char_set"
proof (induction i rule: less_induct)
  case (less i)
  show ?case
  proof (cases "i = 0")
    case True
    then show ?thesis by (simp add: b36_loop_zero)
  next
    case False
    then have d: "i div 36 < i" and p: "0 < i" by simp_all
    have "char_set ! (i mod 36) \<in> set char_set"
      by (rule nth_mem) (simp add: char_set_facts)
    with less.IH[OF d] show ?thesis by (simp add: b36_loop_step[OF p])
  qed
qed

lemma b36_loop_length: "i < 36 ^ k \<Longrightarrow> length (b36_loop i []) \<le> k"
proof (induction k arbitrary: i)
  case 0
  then show ?case by (simp add: b36_loop_zero)
next
  case (Suc k)
  show ?case
  proof (cases "i = 0")
    case True
    then show ?thesis by (simp add: b36_loop_zero)
  next
    case False
    then have p: "0 < i" by simp
    from Suc.prems have "i div 36 < 36 ^ k"
      by (simp add: less_mult_imp_div_less mult.commute)
    from Suc.IH[OF this] show ?thesis by (simp add: b36_loop_step[OF p])
  qed
qed

lemma b36_loop_nonempty: "0 < i \<Longrightarrow> b36_loop i [] \<noteq> []"
  by (simp add: b36_loop_step)

lemma int_to_base36_Inr:
  assumes "int_to_base36 i = Inr s"
  shows "0 \<le> i \<and> s \<noteq> [] \<and> set s \<subseteq> set char_set \<and> b36_value s = nat i"
proof -
  from assms have nn: "0 \<le> i" by (simp add: int_to_base36_def split: if_splits)
  show ?thesis
  proof (cases "i < 36")
    case True
    with nn assms have s: "s = [char_set ! nat i]" and k: "nat i < length char_set"
      by (simp_all add: int_to_base36_def char_set_facts)
    have "char_set ! nat i \<in> set char_set" using k by (rule nth_mem)
    with s index_of_nth[OF char_set_facts(2) k] nn show ?thesis
      by (simp add: b36_value_def)
  next
    case False
    with nn assms have s: "s = b36_loop (nat i) []" and p: "0 < nat i"
      by (simp_all add: int_to_base36_def)
    with nn b36_loop_chars[of "nat i"] b36_value_loop[of "nat i"] b36_loop_nonempty[OF p]
    show ?thesis by simp
  qed
qed

lemma int_to_base36_length:
  assumes "int_to_base36 i = Inr s" and "i < 36 ^ 13"
  shows "length s \<le> 13"
proof (cases "i < 36")
  case True
  with assms show ?thesis by (auto simp: int_to_base36_def split: if_splits)
next
  case False
  with assms have s: "s = b36_loop (nat i) []" and nn: "0 \<le> i"
    by (simp_all add: int_to_base36_def split: if_splits)
  from assms(2) nn have "nat i < 36 ^ 13"
    by (simp add: nat_less_iff)
  from b36_loop_length[OF this] s show ?thesis by simp
qed

lemma base36_round_trip:
  assumes "int_to_base36 i = Inr s" and "i < 36 ^ 13"
  shows "base36_to_int s = Inr i"
proof -
  from int_to_base36_Inr[OF assms(1)] have nn: "0 \<le> i" and ne: "s \<noteq> []"
    and cs: "set s \<subseteq> set char_set" and v: "b36_value s = nat i"
    by simp_all
  have l: "\<not> length s > 13" using int_to_base36_length[OF assms] by simp
  have m: "\<not> list_ex (\<lambda>c. c \<notin> set char_set) s"
    using cs by (auto simp: list_ex_iff)
  show ?thesis
    using l ne m v nn by (simp add: base36_to_int_def b36_value_def)
qed

lemma str_split_no_sep: "c \<notin> set s \<Longrightarrow> str_split c s = [s]"
  by (induction s) auto

lemma str_split_append: "c \<notin> set a \<Longrightarrow> str_split c (a @ c # b) = a # str_split c b"
  by (induction a) auto

lemma every_second_subset: "set (every_second xs) \<subseteq> set xs"
  by (induction xs rule: every_second.induct) auto

lemma hexdigits_facts: "length hexdigits = 16" "CHR ''-'' \<notin> set hexdigits"
  by (simp_all add: hexdigits_def)

lemma hexdigest_chars: "set (hexdigest bs) \<subseteq> set hexdigits"
proof (induction bs)
  case Nil
  show ?case by (simp add: hexdigest_def)
next
  case (Cons b bs)
  have a: "hexdigits ! (b div 16 mod 16) \<in> set hexdigits"
    by (rule nth_mem) (simp add: hexdigits_facts)
  have c: "hexdigits ! (b mod 16) \<in> set hexdigits"
    by (rule nth_mem) (simp add: hexdigits_facts)
  from Cons a c show ?case by (simp add: hexdigest_def)
qed

lemma hexdigest_no_sep: "CHR ''-'' \<notin> set (hexdigest bs)"
  using hexdigest_chars[of bs] hexdigits_facts(2) by blast

lemma hash_no_sep: "CHR ''-'' \<notin> set (every_second (hexdigest bs))"
  using every_second_subset[of "hexdigest bs"] hexdigest_no_sep[of bs] by blast

lemma make_hash_value_token [simp]:
  "make_hash_value fw now (user\<lparr>token := t\<rparr>) ts = make_hash_value fw now user ts"
  by (simp add: make_hash_value_def)

lemma make_hash_value_timestamp: "make_hash_value fw now user ts = make_hash_value fw now user ts'"
  by (simp add: make_hash_value_def)

lemma make_token_with_timestamp_shape:
  assumes "make_token_with_timestamp fw now user ts secret = Inr tok"
  obtains ts_b36 where "int_to_base36 ts = Inr ts_b36"
    and "tok = ts_b36 @ CHR ''-'' #
            every_second (hexdigest (salted_hmac fw secret (make_hash_value fw now user ts)))"
    and "str_split CHR ''-'' tok =
           [ts_b36, every_second (hexdigest (salted_hmac fw secret (make_hash_value fw now user ts)))]"
proof -
  from assms obtain ts_b36 where a: "int_to_base36 ts = Inr ts_b36"
    and b: "tok = ts_b36 @ CHR ''-'' #
            every_second (hexdigest (salted_hmac fw secret (make_hash_value fw now user ts)))"
    by (auto simp: make_token_with_timestamp_def split: sum.splits)
  from int_to_base36_Inr[OF a] char_set_facts(3) have "CHR ''-'' \<notin> set ts_b36" by blast
  then have "str_split CHR ''-'' tok =
           [ts_b36, every_second (hexdigest (salted_hmac fw secret (make_hash_value fw now user ts)))]"
    using hash_no_sep by (simp add: b str_split_append str_split_no_sep)
  with a b that show ?thesis by blast
qed

lemma check_own_token:
  assumes "num_seconds now < 36 ^ 13" and "0 \<le> PASSWORD_RESET_TIMEOUT fw"
    and "token_generator_make_token fw now user = Inr tok"
  shows "token_generator_check_token fw now (user\<lparr>token := t\<rparr>) tok"
proof -
  let ?ts = "num_seconds now"
  have mk: "make_token_with_timestamp fw now user ?ts (SECRET_KEY fw) = Inr tok"
    using assms(3) by (simp add: token_generator_make_token_def)
  then obtain ts_b36 where a: "int_to_base36 ?ts = Inr ts_b36"
    and b: "tok = ts_b36 @ CHR ''-'' #
            every_second (hexdigest (salted_hmac fw (SECRET_KEY fw) (make_hash_value fw now user ?ts)))"
    and sp: "str_split CHR ''-'' tok =
           [ts_b36, every_second (hexdigest (salted_hmac fw (SECRET_KEY fw) (make_hash_value fw now user ?ts)))]"
    by (rule make_token_with_timestamp_shape)
  have ne: "tok \<noteq> []" using b by simp
  have rt: "base36_to_int ts_b36 = Inr ?ts" using a assms(1) by (rule base36_round_trip)
  have mk': "make_token_with_timestamp fw now (user\<lparr>token := t\<rparr>) ?ts (SECRET_KEY fw) = Inr tok"
    by (simp add: make_token_with_timestamp_def a b)
  show ?thesis
    using ne sp rt mk' assms(2) by (simp add: token_generator_check_token_def)
qed

lemma check_token_true_cases:
  assumes "token_generator_check_token fw now user tok"
  obtains ts_b36 h ts secret where "str_split CHR ''-'' tok = [ts_b36, h]"
    and "base36_to_int ts_b36 = Inr ts"
    and "secret \<in> set (SECRET_KEY fw # SECRET_KEY_FALLBACKS fw)"
    and "make_token_with_timestamp fw now user ts secret = Inr tok"
proof -
  from assms obtain ts_b36 h where sp: "str_split CHR ''-'' tok = [ts_b36, h]"
    by (auto simp: token_generator_check_token_def split: if_splits list.splits)
  with assms obtain ts where b: "base36_to_int ts_b36 = Inr ts"
    by (auto simp: token_generator_check_token_def split: if_splits sum.splits)
  with assms sp have "list_ex (\<lambda>secret. make_token_with_timestamp fw now user ts secret = Inr tok)
                        (SECRET_KEY fw # SECRET_KEY_FALLBACKS fw)"
    by (auto simp: token_generator_check_token_def split: if_splits)
  then obtain secret where "secret \<in> set (SECRET_KEY fw # SECRET_KEY_FALLBACKS fw)"
    and "make_token_with_timestamp fw now user ts secret = Inr tok"
    unfolding list_ex_iff by blast
  with sp b that show ?thesis by blast
qed

lemma check_token_only_if_hash_matches:
  assumes "token_generator_check_token fw now user tok"
  shows "\<exists>ts_b36 h secret. str_split CHR ''-'' tok = [ts_b36, h] \<and>
           secret \<in> set (SECRET_KEY fw # SECRET_KEY_FALLBACKS fw) \<and>
           h = every_second (hexdigest (salted_hmac fw secret (make_hash_value fw now user 0)))"
proof -
  from assms obtain ts_b36 h ts secret where sp: "str_split CHR ''-'' tok = [ts_b36, h]"
    and s: "secret \<in> set (SECRET_KEY fw # SECRET_KEY_FALLBACKS fw)"
    and mk: "make_token_with_timestamp fw now user ts secret = Inr tok"
    by (rule check_token_true_cases)
  from mk obtain ts' where "str_split CHR ''-'' tok =
      [ts', every_second (hexdigest (salted_hmac fw secret (make_hash_value fw now user ts)))]"
    by (rule make_token_with_timestamp_shape)
  with sp have "h = every_second (hexdigest (salted_hmac fw secret (make_hash_value fw now user ts)))"
    by simp
  then have "h = every_second (hexdigest (salted_hmac fw secret (make_hash_value fw now user 0)))"
    using make_hash_value_timestamp[of fw now user ts 0] by simp
  with sp s show ?thesis by blast
qed

lemma persisted_lookup:
  assumes d: "distinct (map pk rows)" and u: "user \<in> set rows"
    and save: "CustomUser_save (user\<lparr>token := Some tok\<rparr>) rows = Inr rows'"
  shows "filter (\<lambda>r. token r = Some tok) rows' = [user\<lparr>token := Some tok\<rparr>]"
proof -
  let ?u' = "user\<lparr>token := Some tok\<rparr>"
  let ?g = "\<lambda>r. if pk r = pk user then ?u' else r"
  have ex: "list_ex (\<lambda>r. pk r = pk ?u') rows" using u by (auto simp: list_ex_iff)
  from save have nc: "\<not> list_ex (unique_clash ?u') rows"
    by (simp add: CustomUser_save_def split: if_splits)
  with save ex have rows': "rows' = map ?g rows"
    by (simp add: CustomUser_save_def)
  from nc have other: "\<And>r. r \<in> set rows \<Longrightarrow> pk r \<noteq> pk user \<Longrightarrow> token r \<noteq> Some tok"
    by (auto simp: list_ex_iff unique_clash_def)
  from u obtain xs ys where sp: "rows = xs @ user # ys" by (auto dest: split_list)
  with d have ix: "pk user \<notin> pk ` set xs" and iy: "pk user \<notin> pk ` set ys"
    by auto
  have nx: "\<And>r. r \<in> set xs \<Longrightarrow> pk r \<noteq> pk user"
    using ix by (metis imageI)
  have ny: "\<And>r. r \<in> set ys \<Longrightarrow> pk r \<noteq> pk user"
    using iy by (metis imageI)
  have mx: "map ?g xs = xs" using nx by (simp add: map_idI)
  have my: "map ?g ys = ys" using ny by (simp add: map_idI)
  have fx: "filter (\<lambda>r. token r = Some tok) xs = []"
    using nx other sp by (auto simp: filter_empty_conv)
  have fy: "filter (\<lambda>r. token r = Some tok) ys = []"
    using ny other sp by (auto simp: filter_empty_conv)
  have "rows' = xs @ ?u' # ys"
    unfolding rows' sp using mx my by simp
  then show ?thesis using fx fy by simp
qed

text \<open>
  C2.  Round trip of issuing and verifying a token, at one clock reading \<open>now\<close>.
  Let \<open>tok\<close> be the string \<open>make_token\<close> produces for an identity of a user table
  with unique keys, and let it be persisted as that identity's stored token (the save
  succeeds).  Then \<open>verify_header\<close>, with the generator's \<open>check_token\<close> reading the
  same clock, returns that identity for a request that presents \<open>tok\<close>, and changes
  nothing.  The reset timeout is not negative and the clock is within the range of
  thirteen base-36 digits of seconds.  Moreover \<open>check_token\<close> is true only for a token
  of exactly two dash-separated parts whose second part equals the hash recomputed,
  under one of the configured secrets, from \<open>_make_hash_value\<close>, which reads the clock
  plus ten seconds and not the token's timestamp.
\<close>

theorem token_round_trip:
  assumes "num_seconds now < 36 ^ 13" and "0 \<le> PASSWORD_RESET_TIMEOUT fw"
    and "distinct (map pk (CustomUser_objects db))" and "user \<in> set (CustomUser_objects db)"
    and "token_generator_make_token fw now user = Inr tok"
    and "CustomUser_save (user\<lparr>token := Some tok\<rparr>) (CustomUser_objects db) = Inr rows"
    and "HTTP_AUTHORIZATION request = Some tok"
  shows "verify_header (token_generator_check_token fw now) request
             (db\<lparr>CustomUser_objects := rows\<rparr>) =
           (Inr (user\<lparr>token := Some tok\<rparr>), request, db\<lparr>CustomUser_objects := rows\<rparr>) \<and>
         (\<forall>u t. token_generator_check_token fw now u t \<longrightarrow>
            (\<exists>ts_b36 h secret. str_split CHR ''-'' t = [ts_b36, h] \<and>
               secret \<in> set (SECRET_KEY fw # SECRET_KEY_FALLBACKS fw) \<and>
               (\<forall>ts. h = every_second (hexdigest
                            (salted_hmac fw secret (make_hash_value fw now u ts))))))"
proof -
  let ?u' = "user\<lparr>token := Some tok\<rparr>"
  have "filter (\<lambda>r. token r = Some tok) rows = [?u']"
    using assms(3,4,6) by (rule persisted_lookup)
  then have get: "objects_get ''CustomUser'' (\<lambda>u. token u = Some tok) rows = Inr ?u'"
    by (rule objects_get_single)
  have "make_token_with_timestamp fw now user (num_seconds now) (SECRET_KEY fw) = Inr tok"
    using assms(5) by (simp add: token_generator_make_token_def)
  then have ne: "tok \<noteq> []"
    by (auto elim: make_token_with_timestamp_shape)
  have ok: "token_generator_check_token fw now ?u' tok"
    using assms(1,2,5) by (rule check_own_token)
  have first: "verify_header (token_generator_check_token fw now) request
             (db\<lparr>CustomUser_objects := rows\<rparr>) =
           (Inr ?u', request, db\<lparr>CustomUser_objects := rows\<rparr>)"
    using assms(7) ne get ok by (simp add: verify_header_def)
  have second: "\<exists>ts_b36 h secret. str_split CHR ''-'' t = [ts_b36, h] \<and>
               secret \<in> set (SECRET_KEY fw # SECRET_KEY_FALLBACKS fw) \<and>
               (\<forall>ts. h = every_second (hexdigest
                            (salted_hmac fw secret (make_hash_value fw now u ts))))"
    if "token_generator_check_token fw now u t" for u t
  proof -
    from check_token_only_if_hash_matches[OF that] obtain ts_b36 h secret where
      a: "str_split CHR ''-'' t = [ts_b36, h]"
      and b: "secret \<in> set (SECRET_KEY fw # SECRET_KEY_FALLBACKS fw)"
      and c: "h = every_second (hexdigest (salted_hmac fw secret (make_hash_value fw now u 0)))"
      by blast
    from c have "\<forall>ts. h = every_second (hexdigest
                            (salted_hmac fw secret (make_hash_value fw now u ts)))"
      by (metis make_hash_value_timestamp)
    with a b show ?thesis by blast
  qed
  from first second show ?thesis by blast
qed

lemma base36_of_one_day: "int_to_base36 86400 = Inr ''1uo0''"
  by (simp add: int_to_base36_def b36_loop.simps char_set_def)

lemma text_type_int_example: "text_type_int 86410000000 = ''86410000000''"
  by (simp add: text_type_int_def str_nat.simps)

lemma text_type_int_three: "text_type_int 3 = ''3''"
  by (simp add: text_type_int_def str_nat.simps)

lemma carol_make_token:
  "token_generator_make_token toy_framework 86400000000 carol = Inr carol_token"
  by (simp add: token_generator_make_token_def make_token_with_timestamp_def num_seconds_def
      base36_of_one_day make_hash_value_def text_type_int_example text_type_int_three carol_def toy_framework_def toy_salted_hmac_def
      text_type_bool_def hexdigest_def hexdigits_def carol_token_def)

theorem token_round_trip_witness:
  "token_generator_make_token toy_framework 86400000000 carol = Inr carol_token \<and>
   verify_header (token_generator_check_token toy_framework 86400000000)
       (request_with (Some carol_token)) db0_carol_token =
     (Inr (carol\<lparr>token := Some carol_token\<rparr>), request_with (Some carol_token), db0_carol_token)"
proof -
  have h1: "num_seconds 86400000000 < 36 ^ 13" by (simp add: num_seconds_def)
  have h2: "0 \<le> PASSWORD_RESET_TIMEOUT toy_framework" by (simp add: toy_framework_def)
  have h3: "distinct (map pk (CustomUser_objects db0))"
    by (simp add: db0_def alice_def bob_def carol_def)
  have h4: "carol \<in> set (CustomUser_objects db0)" by (simp add: db0_def)
  have h5: "token_generator_make_token toy_framework 86400000000 carol = Inr carol_token"
    by (rule carol_make_token)
  have h6: "CustomUser_save (carol\<lparr>token := Some carol_token\<rparr>) (CustomUser_objects db0) =
              Inr [alice, bob, carol\<lparr>token := Some carol_token\<rparr>]"
    by (simp add: CustomUser_save_def unique_clash_def db0_def alice_def bob_def carol_def
        carol_token_def)
  have h7: "HTTP_AUTHORIZATION (request_with (Some carol_token)) = Some carol_token"
    by (simp add: request_with_def)
  from token_round_trip[OF h1 h2 h3 h4 h5 h6 h7]
  have "verify_header (token_generator_check_token toy_framework 86400000000)
       (request_with (Some carol_token))
       (db0\<lparr>CustomUser_objects := [alice, bob, carol\<lparr>token := Some carol_token\<rparr>]\<rparr>) =
     (Inr (carol\<lparr>token := Some carol_token\<rparr>), request_with (Some carol_token),
      db0\<lparr>CustomUser_objects := [alice, bob, carol\<lparr>token := Some carol_token\<rparr>]\<rparr>)"
    by blast
  with h5 show ?thesis by (simp add: db0_carol_token_def)
qed

end
